theory Spec2Isabelle
  imports Complex_Main "HOL-Library.Log_Nat"
begin

section \<open>Data model (types.ts)\<close>

text \<open>
  A JavaScript \<open>number\<close> is modelled as a real number: overflow and the special
  values NaN and Infinity are outside the model, and so is the rounding of IEEE doubles
  but for the monthly cashflows, which a section of their own models in double
  arithmetic. Counts of rooms are natural numbers. The display strings \<open>id\<close> and \<open>name\<close> of a scenario are
  built by number formatting and are read by no function of the engine; they are not
  part of the model.

  The only exceptions the engine could raise come from the language itself: a property
  read on \<open>null\<close> and \<open>Array.prototype.reduce\<close> on an empty array without an initial
  value. Both are a \<open>TypeError\<close>, and a function that could raise returns a sum with
  the error on the left.
\<close>

datatype error = TypeError

record XiamenProperty =
  marketValue :: real
  monthlyRent :: real
  exchangeRate :: real
  sellingCostRate :: real

datatype PropertyType = Type_1B1B | Type_2B2B | Type_3B2B

record SDPropertyOption =
  property_type :: PropertyType
  price :: real
  monthlyRent_sd :: real
  rooms :: nat
  appreciationRate :: real
  hoaAndTax :: real

datatype LoanType = conventional | va | fha

text \<open>The field \<open>pmi\<close> is optional in the source: \<open>None\<close> is \<open>undefined\<close>.\<close>

record LoanOption =
  loan_name :: string
  loan_type :: LoanType
  interestRate :: real
  minDownPayment :: real
  pmi :: "real option"

record Borrower =
  borrower_name :: string
  monthlyIncome :: real
  loanOptions :: "LoanOption list"

record InvestmentScenario =
  sellXiamen :: bool
  sdProperty :: "SDPropertyOption option"
  downPaymentPercent :: real
  borrower :: "Borrower option"
  roomsToRent :: nat
  sdRentIfNotBuying :: real

record CalculationResult =
  scenario :: InvestmentScenario
  initialInvestment :: real
  downPayment :: real
  closingCosts :: real
  remainingCash :: real
  monthlyMortgage :: real
  monthlyHOATax :: real
  monthlyRentalIncome :: real
  monthlyImputedRent :: real
  monthlyTotalIncome :: real
  monthlyCashflow :: real
  monthlyEffectiveCashflow :: real
  annualCashflow :: real
  annualEffectiveCashflow :: real
  cashflowAPY :: real
  effectiveCashflowAPY :: real
  year5PropertyValue :: real
  year5Equity :: real
  year5TotalReturn :: real
  year5ROI :: real
  year5AnnualizedROI :: real
  dti :: real
  mortgageToIncomeRatio :: real

section \<open>Amortization and net proceeds (calculator.ts)\<close>

text \<open>
  \<open>Math.pow\<close> on a positive base is the real power. For the other bases JavaScript
  yields an integer power, zero, NaN or an infinity; the model takes the value of
  \<open>powr\<close> there.
\<close>

definition Math_pow :: "real \<Rightarrow> real \<Rightarrow> real" where
  "Math_pow x y = x powr y"

definition calculateMonthlyMortgage :: "real \<Rightarrow> real \<Rightarrow> real \<Rightarrow> real" where
  "calculateMonthlyMortgage principal' annualRate years =
     (let monthlyRate = annualRate / 12;
          numPayments = years * 12
      in if monthlyRate = 0 then principal' / numPayments
         else principal' *
              (monthlyRate * Math_pow (1 + monthlyRate) numPayments) /
              (Math_pow (1 + monthlyRate) numPayments - 1))"

definition calculateRemainingBalance :: "real \<Rightarrow> real \<Rightarrow> real \<Rightarrow> real \<Rightarrow> real" where
  "calculateRemainingBalance principal' annualRate years paymentsMade =
     (let monthlyRate = annualRate / 12;
          numPayments = years * 12
      in if monthlyRate = 0 then principal' - (principal' / numPayments) * paymentsMade
         else principal' *
              (Math_pow (1 + monthlyRate) numPayments - Math_pow (1 + monthlyRate) paymentsMade) /
              (Math_pow (1 + monthlyRate) numPayments - 1))"

definition calculateXiamenNetProceeds :: "XiamenProperty \<Rightarrow> real" where
  "calculateXiamenNetProceeds xiamen =
     (let grossUSD = marketValue xiamen / exchangeRate xiamen;
          netUSD = grossUSD * (1 - sellingCostRate xiamen)
      in netUSD)"

section \<open>Loan selection\<close>

text \<open>
  \<open>xs.reduce(f)\<close> without an initial value: the first element starts the
  accumulator, and an empty array raises.
\<close>

fun Array_reduce :: "('a \<Rightarrow> 'a \<Rightarrow> 'a) \<Rightarrow> 'a list \<Rightarrow> error + 'a" where
  "Array_reduce f [] = Inl TypeError"
| "Array_reduce f (x # xs) = Inr (foldl f x xs)"

definition getBestLoanOption :: "Borrower \<Rightarrow> real \<Rightarrow> error + LoanOption option" where
  "getBestLoanOption b downPaymentPercent' =
     (let validOptions =
            filter (\<lambda>opt. downPaymentPercent' \<ge> minDownPayment opt) (loanOptions b)
      in if length validOptions = 0 then Inr None
         else (case Array_reduce
                      (\<lambda>best current.
                         if interestRate current < interestRate best then current else best)
                      validOptions of
                 Inl e \<Rightarrow> Inl e
               | Inr best \<Rightarrow> Inr (Some best)))"

section \<open>Scenario evaluator\<close>

text \<open>
  Truthiness of an optional number, as in \<open>loanOption.pmi && ...\<close> and
  \<open>... || 5000\<close>: \<open>undefined\<close> and zero are falsy.
\<close>

definition truthy :: "real option \<Rightarrow> bool" where
  "truthy v = (case v of None \<Rightarrow> False | Some x \<Rightarrow> x \<noteq> 0)"

text \<open>
  The loan terms of the buy branch (the block that starts from the default rate 6.5%
  and no insurance premium and overwrites both from the selected loan option): the
  interest rate and the monthly premium the evaluator goes on with.
\<close>

definition loanTerms :: "InvestmentScenario \<Rightarrow> real \<Rightarrow> error + real \<times> real" where
  "loanTerms scen downPaymentPercent' =
     (case borrower scen of
        None \<Rightarrow> Inr (0.065, 0)
      | Some b \<Rightarrow>
         (case getBestLoanOption b downPaymentPercent' of
            Inl e \<Rightarrow> Inl e
          | Inr None \<Rightarrow> Inr (0.065, 0)
          | Inr (Some loanOption) \<Rightarrow>
              Inr (interestRate loanOption,
                   if truthy (pmi loanOption) \<and> downPaymentPercent' < 0.2
                   then the (pmi loanOption) else 0)))"

text \<open>
  The evaluator. The default argument \<open>years = 30\<close> of \<open>calculateMonthlyMortgage\<close> is
  written out. After the guard the source reads \<open>property.price\<close>; on \<open>null\<close> that read
  would raise, which is the \<open>None\<close> branch of the case on \<open>sdProperty\<close>.
\<close>

definition calculateScenario ::
  "InvestmentScenario \<Rightarrow> XiamenProperty \<Rightarrow> real \<Rightarrow> error + CalculationResult" where
  "calculateScenario scen xiamen analysisYears =
     (let xiamenNetProceeds = calculateXiamenNetProceeds xiamen;
          xiamenMonthlyRentUSD = monthlyRent xiamen / exchangeRate xiamen;
          xiamenValueUSD = marketValue xiamen / exchangeRate xiamen
      in if \<not> sellXiamen scen \<or> sdProperty scen = None then
           (let sdRent = sdRentIfNotBuying scen;
                monthlyCashflow' = xiamenMonthlyRentUSD - sdRent;
                annualCashflow' = monthlyCashflow' * 12;
                year5Value = xiamenValueUSD;
                totalCashflow5Y = annualCashflow' * analysisYears;
                year5TotalReturn' = year5Value + totalCashflow5Y - xiamenValueUSD
            in Inr \<lparr> scenario = scen,
                     initialInvestment = xiamenValueUSD,
                     downPayment = 0,
                     closingCosts = 0,
                     remainingCash = 0,
                     monthlyMortgage = 0,
                     monthlyHOATax = 0,
                     monthlyRentalIncome = xiamenMonthlyRentUSD,
                     monthlyImputedRent = 0,
                     monthlyTotalIncome = xiamenMonthlyRentUSD,
                     monthlyCashflow = monthlyCashflow',
                     monthlyEffectiveCashflow = monthlyCashflow',
                     annualCashflow = annualCashflow',
                     annualEffectiveCashflow = annualCashflow',
                     cashflowAPY = (annualCashflow' / xiamenValueUSD) * 100,
                     effectiveCashflowAPY = (annualCashflow' / xiamenValueUSD) * 100,
                     year5PropertyValue = year5Value,
                     year5Equity = year5Value,
                     year5TotalReturn = year5TotalReturn',
                     year5ROI = (year5TotalReturn' / xiamenValueUSD) * 100,
                     year5AnnualizedROI =
                       (Math_pow (1 + year5TotalReturn' / xiamenValueUSD) (1 / analysisYears) - 1) * 100,
                     dti = 0,
                     mortgageToIncomeRatio = 0 \<rparr>)
         else
           (case sdProperty scen of
              None \<Rightarrow> Inl TypeError
            | Some property \<Rightarrow>
               (let downPaymentPercent' = downPaymentPercent scen;
                    downPayment' = price property * downPaymentPercent';
                    closingCosts' = price property * 0.03;
                    loanAmount = price property - downPayment'
                in case loanTerms scen downPaymentPercent' of
                     Inl e \<Rightarrow> Inl e
                   | Inr (interestRate', pmi') \<Rightarrow>
                      (let totalInitialCost = downPayment' + closingCosts';
                           remainingCash' = xiamenNetProceeds - totalInitialCost;
                           monthlyMortgage' = calculateMonthlyMortgage loanAmount interestRate' 30;
                           monthlyHOATax' = hoaAndTax property;
                           monthlyRentalIncome' = monthlyRent_sd property * real (roomsToRent scen);
                           monthlyImputedRent' = sdRentIfNotBuying scen;
                           monthlyTotalIncome' = monthlyRentalIncome' + monthlyImputedRent';
                           totalMonthlyPayment = monthlyMortgage' + monthlyHOATax' + pmi';
                           monthlyCashflow' = monthlyRentalIncome' - totalMonthlyPayment;
                           monthlyEffectiveCashflow' = monthlyTotalIncome' - totalMonthlyPayment;
                           annualCashflow' = monthlyCashflow' * 12;
                           annualEffectiveCashflow' = monthlyEffectiveCashflow' * 12;
                           cashflowAPY' = (annualCashflow' / totalInitialCost) * 100;
                           effectiveCashflowAPY' = (annualEffectiveCashflow' / totalInitialCost) * 100;
                           year5PropertyValue' =
                             price property * Math_pow (1 + appreciationRate property) analysisYears;
                           year5LoanBalance =
                             calculateRemainingBalance loanAmount interestRate' 30 (analysisYears * 12);
                           year5Equity' = year5PropertyValue' - year5LoanBalance;
                           totalEffectiveCashflow5Y = annualEffectiveCashflow' * analysisYears;
                           year5NetWorth = year5Equity' + remainingCash' + totalEffectiveCashflow5Y;
                           year5TotalReturn' = year5NetWorth - xiamenNetProceeds;
                           year5ROI' = (year5TotalReturn' / xiamenNetProceeds) * 100;
                           year5AnnualizedROI' =
                             (Math_pow (year5NetWorth / xiamenNetProceeds) (1 / analysisYears) - 1) * 100;
                           monthlyIncome' =
                             (case borrower scen of
                                None \<Rightarrow> 5000
                              | Some b \<Rightarrow> if monthlyIncome b \<noteq> 0 then monthlyIncome b else 5000);
                           dti' = (totalMonthlyPayment / monthlyIncome') * 100;
                           mortgageToIncomeRatio' = (monthlyMortgage' / monthlyIncome') * 100
                       in Inr \<lparr> scenario = scen,
                                initialInvestment = xiamenNetProceeds,
                                downPayment = downPayment',
                                closingCosts = closingCosts',
                                remainingCash = remainingCash',
                                monthlyMortgage = monthlyMortgage',
                                monthlyHOATax = monthlyHOATax',
                                monthlyRentalIncome = monthlyRentalIncome',
                                monthlyImputedRent = monthlyImputedRent',
                                monthlyTotalIncome = monthlyTotalIncome',
                                monthlyCashflow = monthlyCashflow',
                                monthlyEffectiveCashflow = monthlyEffectiveCashflow',
                                annualCashflow = annualCashflow',
                                annualEffectiveCashflow = annualEffectiveCashflow',
                                cashflowAPY = cashflowAPY',
                                effectiveCashflowAPY = effectiveCashflowAPY',
                                year5PropertyValue = year5PropertyValue',
                                year5Equity = year5Equity',
                                year5TotalReturn = year5TotalReturn',
                                year5ROI = year5ROI',
                                year5AnnualizedROI = year5AnnualizedROI',
                                dti = dti',
                                mortgageToIncomeRatio = mortgageToIncomeRatio' \<rparr>))))"

section \<open>Scenario-space generators\<close>

text \<open>
  A \<open>for ... of\<close> loop whose body pushes elements to the output array: the loop yields
  what its iterations push, in order, and an exception in an iteration ends it. A
  \<open>continue\<close> is an iteration that pushes nothing.
\<close>

fun forEach :: "'a list \<Rightarrow> ('a \<Rightarrow> error + 'b list) \<Rightarrow> error + 'b list" where
  "forEach [] body = Inr []"
| "forEach (x # xs) body =
     (case body x of
        Inl e \<Rightarrow> Inl e
      | Inr ys \<Rightarrow> (case forEach xs body of Inl e \<Rightarrow> Inl e | Inr zs \<Rightarrow> Inr (ys @ zs)))"

text \<open>The down-payment grid of \<open>generateScenarios\<close> in calculator.ts.\<close>

definition downPaymentOptions :: "real list" where
  "downPaymentOptions = [0.2, 0.25, 0.3, 0.35, 0.5]"

text \<open>
  \<open>generateScenarios\<close> of calculator.ts. Its parameter \<open>xiamen\<close> is not read by the
  body. The loop \<open>for (rooms = 0; rooms <= maxRooms; rooms++)\<close> runs over
  \<open>[0..<Suc maxRooms]\<close>.
\<close>

definition generateScenarios ::
  "XiamenProperty \<Rightarrow> SDPropertyOption list \<Rightarrow> Borrower list \<Rightarrow> real
     \<Rightarrow> error + InvestmentScenario list" where
  "generateScenarios xiamen sdOptions borrowers sdRent =
     (case forEach sdOptions (\<lambda>property.
             forEach borrowers (\<lambda>b.
               forEach downPaymentOptions (\<lambda>dp.
                 case getBestLoanOption b dp of
                   Inl e \<Rightarrow> Inl e
                 | Inr None \<Rightarrow> Inr []
                 | Inr (Some loanOption) \<Rightarrow>
                     (let maxRooms = rooms property
                      in forEach [0..<Suc maxRooms] (\<lambda>k.
                           Inr [\<lparr> sellXiamen = True,
                                   sdProperty = Some property,
                                   downPaymentPercent = dp,
                                   borrower = Some b,
                                   roomsToRent = k,
                                   sdRentIfNotBuying = sdRent \<rparr>]))))) of
        Inl e \<Rightarrow> Inl e
      | Inr combos \<Rightarrow>
          Inr (\<lparr> sellXiamen = False,
                  sdProperty = None,
                  downPaymentPercent = 0,
                  borrower = None,
                  roomsToRent = 0,
                  sdRentIfNotBuying = sdRent \<rparr> # combos))"

definition calculateAllScenarios ::
  "InvestmentScenario list \<Rightarrow> XiamenProperty \<Rightarrow> real \<Rightarrow> error + CalculationResult list" where
  "calculateAllScenarios scenarios xiamen analysisYears =
     forEach scenarios (\<lambda>s.
       case calculateScenario s xiamen analysisYears of Inl e \<Rightarrow> Inl e | Inr r \<Rightarrow> Inr [r])"

text \<open>The down-payment grid of \<open>allResults\<close> in App.tsx.\<close>

definition dpOptions :: "real list" where
  "dpOptions = [0, 0.05, 0.1, 0.15, 0.2, 0.25, 0.3, 0.35, 0.4, 0.5, 0.6, 0.7, 0.8]"

text \<open>
  \<open>allResults\<close> of App.tsx: the enumeration the application runs, with the state of
  the component (\<open>xiamen\<close>, \<open>sdOptions\<close>, \<open>borrowers\<close>, \<open>sdRentIfNotBuying\<close>,
  \<open>analysisYears\<close>) as parameters.
\<close>

definition allResults ::
  "XiamenProperty \<Rightarrow> SDPropertyOption list \<Rightarrow> Borrower list \<Rightarrow> real \<Rightarrow> real
     \<Rightarrow> error + CalculationResult list" where
  "allResults xiamen sdOptions borrowers sdRent analysisYears =
     (let xiamenNetProceeds = calculateXiamenNetProceeds xiamen;
          baseline = \<lparr> sellXiamen = False,
                       sdProperty = None,
                       downPaymentPercent = 0,
                       borrower = None,
                       roomsToRent = 0,
                       sdRentIfNotBuying = sdRent \<rparr>
      in case calculateScenario baseline xiamen analysisYears of
           Inl e \<Rightarrow> Inl e
         | Inr r0 \<Rightarrow>
            (case forEach sdOptions (\<lambda>property.
                    forEach borrowers (\<lambda>b.
                      forEach dpOptions (\<lambda>dp.
                        case getBestLoanOption b dp of
                          Inl e \<Rightarrow> Inl e
                        | Inr None \<Rightarrow> Inr []
                        | Inr (Some loanOption) \<Rightarrow>
                            (let downPayment' = price property * dp;
                                 closingCosts' = price property * 0.03
                             in if downPayment' + closingCosts' > xiamenNetProceeds then Inr []
                                else forEach [0..<Suc (rooms property)] (\<lambda>k.
                                       case calculateScenario
                                              \<lparr> sellXiamen = True,
                                                sdProperty = Some property,
                                                downPaymentPercent = dp,
                                                borrower = Some b,
                                                roomsToRent = k,
                                                sdRentIfNotBuying = sdRent \<rparr>
                                              xiamen analysisYears of
                                         Inl e \<Rightarrow> Inl e
                                       | Inr r \<Rightarrow> Inr [r]))))) of
               Inl e \<Rightarrow> Inl e
             | Inr rs \<Rightarrow> Inr (r0 # rs)))"

text \<open>
  The later variant of the component evaluates for one borrower, \<open>currentBorrower\<close>,
  built from the loan form: the same loops without the iteration over borrowers.
\<close>

definition allResults_currentBorrower ::
  "XiamenProperty \<Rightarrow> SDPropertyOption list \<Rightarrow> Borrower \<Rightarrow> real \<Rightarrow> real
     \<Rightarrow> error + CalculationResult list" where
  "allResults_currentBorrower xiamen sdOptions currentBorrower sdRent analysisYears =
     (let xiamenNetProceeds = calculateXiamenNetProceeds xiamen;
          baseline = \<lparr> sellXiamen = False,
                       sdProperty = None,
                       downPaymentPercent = 0,
                       borrower = None,
                       roomsToRent = 0,
                       sdRentIfNotBuying = sdRent \<rparr>
      in case calculateScenario baseline xiamen analysisYears of
           Inl e \<Rightarrow> Inl e
         | Inr r0 \<Rightarrow>
            (case forEach sdOptions (\<lambda>property.
                    forEach dpOptions (\<lambda>dp.
                      case getBestLoanOption currentBorrower dp of
                        Inl e \<Rightarrow> Inl e
                      | Inr None \<Rightarrow> Inr []
                      | Inr (Some loanOption) \<Rightarrow>
                          (let downPayment' = price property * dp;
                               closingCosts' = price property * 0.03
                           in if downPayment' + closingCosts' > xiamenNetProceeds then Inr []
                              else forEach [0..<Suc (rooms property)] (\<lambda>k.
                                     case calculateScenario
                                            \<lparr> sellXiamen = True,
                                              sdProperty = Some property,
                                              downPaymentPercent = dp,
                                              borrower = Some currentBorrower,
                                              roomsToRent = k,
                                              sdRentIfNotBuying = sdRent \<rparr>
                                            xiamen analysisYears of
                                       Inl e \<Rightarrow> Inl e
                                     | Inr r \<Rightarrow> Inr [r])))) of
               Inl e \<Rightarrow> Inl e
             | Inr rs \<Rightarrow> Inr (r0 # rs)))"

section \<open>Pareto frontier\<close>

text \<open>
  The selector compares results with \<open>===\<close>, the identity of objects. A result
  collection is therefore a list of references into a store of results, and two
  references are the same object when they are equal.
\<close>

type_synonym ref = nat

fun isDominated :: "(ref \<Rightarrow> CalculationResult) \<Rightarrow> ref \<Rightarrow> ref list \<Rightarrow> bool" where
  "isDominated h result [] = False"
| "isDominated h result (other # rest) =
     (if result = other then isDominated h result rest
      else if cashflowAPY (h other) \<ge> cashflowAPY (h result) \<and>
              year5AnnualizedROI (h other) \<ge> year5AnnualizedROI (h result) \<and>
              (cashflowAPY (h other) > cashflowAPY (h result) \<or>
               year5AnnualizedROI (h other) > year5AnnualizedROI (h result))
           then True
           else isDominated h result rest)"

text \<open>
  \<open>frontier.sort((a, b) => a.cashflowAPY - b.cashflowAPY)\<close> is a stable sort in
  ascending order of \<open>cashflowAPY\<close>.
\<close>

definition findParetoFrontier :: "(ref \<Rightarrow> CalculationResult) \<Rightarrow> ref list \<Rightarrow> ref list" where
  "findParetoFrontier h results =
     (let frontier = filter (\<lambda>result. \<not> isDominated h result results) results
      in sort_key (\<lambda>a. cashflowAPY (h a)) frontier)"

text \<open>
  \<open>paretoData\<close> of App.tsx, the points of the scatter chart: the results of buy
  scenarios with a DTI below 43, each as the pair of its effective APY and annualized
  ROI (the labels \<open>name\<close> and \<open>id\<close> are left out, as for the scenario).
\<close>

record ChartPoint =
  point_cashflowAPY :: real
  point_year5ROI :: real

definition paretoData :: "CalculationResult list \<Rightarrow> ChartPoint list" where
  "paretoData allResults' =
     map (\<lambda>r. \<lparr> point_cashflowAPY = effectiveCashflowAPY r,
                  point_year5ROI = year5AnnualizedROI r \<rparr>)
         (filter (\<lambda>r. sellXiamen (scenario r) \<and> dti r < 43) allResults')"

text \<open>
  The domination rule in the words of the specification, for two objectives:
  \<open>B\<close> dominates \<open>A\<close> iff \<open>B\<close> is at least \<open>A\<close> on both objectives and greater on one.
\<close>

definition dominates :: "('r \<Rightarrow> real) \<Rightarrow> ('r \<Rightarrow> real) \<Rightarrow> 'r \<Rightarrow> 'r \<Rightarrow> bool" where
  "dominates obj1 obj2 B A =
     (obj1 B \<ge> obj1 A \<and> obj2 B \<ge> obj2 A \<and> (obj1 B > obj1 A \<or> obj2 B > obj2 A))"

text \<open>
  The selector in the words of the specification: restrict the collection by the
  feasibility predicate, keep the results no other feasible result dominates, and order
  them by the first objective.
\<close>

definition paretoSelector_spec ::
  "(CalculationResult \<Rightarrow> real) \<Rightarrow> (CalculationResult \<Rightarrow> real) \<Rightarrow> (CalculationResult \<Rightarrow> bool)
     \<Rightarrow> (ref \<Rightarrow> CalculationResult) \<Rightarrow> ref list \<Rightarrow> ref list" where
  "paretoSelector_spec obj1 obj2 feasible h results =
     (let filtered = filter (\<lambda>a. feasible (h a)) results
      in sort_key (\<lambda>a. obj1 (h a))
           (filter (\<lambda>a. \<not> list_ex (\<lambda>b. dominates obj1 obj2 (h b) (h a)) filtered) filtered))"

section \<open>The monthly cashflows in double arithmetic\<close>

text \<open>
  The numbers of the evaluator are IEEE 754 doubles, and each arithmetic operation
  rounds its exact result to the nearest double, ties to the even mantissa. Where a
  property relates two results that are rounded separately, the real numbers above say
  too much. This section models the statements of the buy branch that the monthly
  cashflows depend on with every operation rounded.

  \<open>fl x\<close> is the double nearest to \<open>x\<close>: with \<open>2 ^ k \<le> \<bar>x\<bar> < 2 ^ (k + 1)\<close>, the
  multiple of \<open>2 ^ (k - 52)\<close> nearest to \<open>x\<close>. The exponent range is not bounded:
  overflow to an infinity and the subnormal numbers are outside the model, as NaN is.
  A number literal, and a decimal typed into the form, denote the nearest double.
\<close>

definition ilog2 :: "real \<Rightarrow> int" where
  "ilog2 x = (if 1 \<le> x then bitlen \<lfloor>x\<rfloor> - 1 else - bitlen (\<lceil>1 / x\<rceil> - 1))"

definition roundEven :: "real \<Rightarrow> int" where
  "roundEven y =
     (let f = \<lfloor>y\<rfloor>; d = y - of_int f
      in if d < 1 / 2 then f else if d > 1 / 2 then f + 1 else if even f then f else f + 1)"

definition fl :: "real \<Rightarrow> real" where
  "fl x =
     (if x = 0 then 0
      else (let e = ilog2 \<bar>x\<bar> - 52
            in of_int (roundEven (x / 2 powi e)) * 2 powi e))"

definition dadd :: "real \<Rightarrow> real \<Rightarrow> real" where
  "dadd a b = fl (a + b)"

definition dsub :: "real \<Rightarrow> real \<Rightarrow> real" where
  "dsub a b = fl (a - b)"

definition dmul :: "real \<Rightarrow> real \<Rightarrow> real" where
  "dmul a b = fl (a * b)"

definition ddiv :: "real \<Rightarrow> real \<Rightarrow> real" where
  "ddiv a b = fl (a / b)"

text \<open>
  \<open>calculateMonthlyMortgage\<close> in doubles. The standard leaves the accuracy of
  \<open>Math.pow\<close> to the implementation, so the function that the platform computes is a
  parameter, \<open>mathPow\<close>.
\<close>

definition calculateMonthlyMortgage_double ::
  "(real \<Rightarrow> real \<Rightarrow> real) \<Rightarrow> real \<Rightarrow> real \<Rightarrow> real \<Rightarrow> real" where
  "calculateMonthlyMortgage_double mathPow principal' annualRate years =
     (let monthlyRate = ddiv annualRate 12;
          numPayments = dmul years 12
      in if monthlyRate = 0 then ddiv principal' numPayments
         else ddiv
                (dmul principal'
                   (dmul monthlyRate (mathPow (dadd 1 monthlyRate) numPayments)))
                (dsub (mathPow (dadd 1 monthlyRate) numPayments) 1))"

text \<open>
  The monthly figures of the buy branch of \<open>calculateScenario\<close> in doubles: the
  statements from \<open>downPayment\<close> to \<open>monthlyEffectiveCashflow\<close> that these figures
  depend on, for the property the guard has found. The loan terms compare numbers and
  compute nothing, so they are the terms above; a double is below the literal \<open>0.2\<close>
  exactly when it is below the real number, the literal being the double next above
  it. The default rate is the double of the literal \<open>0.065\<close>. The sum
  \<open>monthlyMortgage + monthlyHOATax + pmi\<close> associates to the left.
\<close>

record MonthlyCashflows =
  dbl_monthlyRentalIncome :: real
  dbl_monthlyImputedRent :: real
  dbl_monthlyTotalIncome :: real
  dbl_totalMonthlyPayment :: real
  dbl_monthlyCashflow :: real
  dbl_monthlyEffectiveCashflow :: real

definition monthlyCashflows_double ::
  "(real \<Rightarrow> real \<Rightarrow> real) \<Rightarrow> InvestmentScenario \<Rightarrow> SDPropertyOption
     \<Rightarrow> error + MonthlyCashflows" where
  "monthlyCashflows_double mathPow scen property =
     (let downPaymentPercent' = downPaymentPercent scen;
          downPayment' = dmul (price property) downPaymentPercent';
          loanAmount = dsub (price property) downPayment'
      in case loanTerms scen downPaymentPercent' of
           Inl e \<Rightarrow> Inl e
         | Inr (interestRate', pmi') \<Rightarrow>
            (let monthlyMortgage' =
                   calculateMonthlyMortgage_double mathPow loanAmount (fl interestRate') 30;
                 monthlyHOATax' = hoaAndTax property;
                 monthlyRentalIncome' =
                   dmul (monthlyRent_sd property) (real (roomsToRent scen));
                 monthlyImputedRent' = sdRentIfNotBuying scen;
                 monthlyTotalIncome' = dadd monthlyRentalIncome' monthlyImputedRent';
                 totalMonthlyPayment =
                   dadd (dadd monthlyMortgage' monthlyHOATax') (fl pmi');
                 monthlyCashflow' = dsub monthlyRentalIncome' totalMonthlyPayment;
                 monthlyEffectiveCashflow' = dsub monthlyTotalIncome' totalMonthlyPayment
             in Inr \<lparr> dbl_monthlyRentalIncome = monthlyRentalIncome',
                      dbl_monthlyImputedRent = monthlyImputedRent',
                      dbl_monthlyTotalIncome = monthlyTotalIncome',
                      dbl_totalMonthlyPayment = totalMonthlyPayment,
                      dbl_monthlyCashflow = monthlyCashflow',
                      dbl_monthlyEffectiveCashflow = monthlyEffectiveCashflow' \<rparr>))"

section \<open>Example data\<close>

text \<open>
  The default data of App.tsx, used where a property is shown at a concrete input.
  Borrower names are written in ASCII.
\<close>

definition defaultXiamen :: XiamenProperty where
  "defaultXiamen =
     \<lparr> marketValue = 2800000, monthlyRent = 2800, exchangeRate = 7.27, sellingCostRate = 0.036 \<rparr>"

definition option_2B2B :: SDPropertyOption where
  "option_2B2B =
     \<lparr> property_type = Type_2B2B, price = 550000, monthlyRent_sd = 1200, rooms = 2,
       appreciationRate = 0.03, hoaAndTax = 850 \<rparr>"

definition option_3B2B :: SDPropertyOption where
  "option_3B2B =
     \<lparr> property_type = Type_3B2B, price = 750000, monthlyRent_sd = 1100, rooms = 3,
       appreciationRate = 0.035, hoaAndTax = 1000 \<rparr>"

definition loan_conventional :: LoanOption where
  "loan_conventional =
     \<lparr> loan_name = ''Conventional'', loan_type = conventional, interestRate = 0.065,
       minDownPayment = 0.2, pmi = Some 150 \<rparr>"

definition loan_va :: LoanOption where
  "loan_va =
     \<lparr> loan_name = ''VA Loan'', loan_type = va, interestRate = 0.055,
       minDownPayment = 0, pmi = Some 0 \<rparr>"

definition loan_low_down :: LoanOption where
  "loan_low_down =
     \<lparr> loan_name = ''Conventional'', loan_type = conventional, interestRate = 0.062,
       minDownPayment = 0.035, pmi = Some 150 \<rparr>"

definition borrower_gavin :: Borrower where
  "borrower_gavin =
     \<lparr> borrower_name = ''Gavin'', monthlyIncome = 8000, loanOptions = [loan_conventional] \<rparr>"

definition borrower_va :: Borrower where
  "borrower_va =
     \<lparr> borrower_name = ''VA'', monthlyIncome = 6000,
       loanOptions = [loan_va, loan_conventional] \<rparr>"

definition borrower_jj :: Borrower where
  "borrower_jj =
     \<lparr> borrower_name = ''JJ'', monthlyIncome = 3900, loanOptions = [loan_low_down] \<rparr>"

definition buyScenario :: "SDPropertyOption \<Rightarrow> Borrower \<Rightarrow> real \<Rightarrow> nat \<Rightarrow> InvestmentScenario" where
  "buyScenario p b dp k =
     \<lparr> sellXiamen = True, sdProperty = Some p, downPaymentPercent = dp, borrower = Some b,
       roomsToRent = k, sdRentIfNotBuying = 850 \<rparr>"

text \<open>A scenario with the liquidate flag on and no candidate property.\<close>

definition nullPropertyScenario :: InvestmentScenario where
  "nullPropertyScenario =
     \<lparr> sellXiamen = True, sdProperty = None, downPaymentPercent = 0.2,
       borrower = Some borrower_gavin, roomsToRent = 1, sdRentIfNotBuying = 850 \<rparr>"

text \<open>
  Three results for the Pareto selector, of which only the four fields it and the
  chart read differ: \<open>cashflowAPY\<close>, \<open>effectiveCashflowAPY\<close>, \<open>year5AnnualizedROI\<close>
  and \<open>dti\<close>.
\<close>

definition plotResult :: "real \<Rightarrow> real \<Rightarrow> real \<Rightarrow> real \<Rightarrow> CalculationResult" where
  "plotResult apy eff roi d =
     \<lparr> scenario = buyScenario option_2B2B borrower_gavin 0.2 0,
       initialInvestment = 0, downPayment = 0, closingCosts = 0, remainingCash = 0,
       monthlyMortgage = 0, monthlyHOATax = 0, monthlyRentalIncome = 0,
       monthlyImputedRent = 0, monthlyTotalIncome = 0, monthlyCashflow = 0,
       monthlyEffectiveCashflow = 0, annualCashflow = 0, annualEffectiveCashflow = 0,
       cashflowAPY = apy, effectiveCashflowAPY = eff,
       year5PropertyValue = 0, year5Equity = 0, year5TotalReturn = 0, year5ROI = 0,
       year5AnnualizedROI = roi, dti = d, mortgageToIncomeRatio = 0 \<rparr>"

definition exampleStore :: "ref \<Rightarrow> CalculationResult" where
  "exampleStore a =
     (if a = 10 then plotResult 1 5 1 50
      else if a = 11 then plotResult 2 3 0.5 10
      else plotResult 0 4 1 10)"

text \<open>
  Names for the two scenario literals of the generators: the baseline, and the
  combination of a property, a borrower, a down-payment fraction and a number of rooms
  let.
\<close>

definition baselineScenario :: "real \<Rightarrow> InvestmentScenario" where
  "baselineScenario sdRent =
     \<lparr> sellXiamen = False, sdProperty = None, downPaymentPercent = 0, borrower = None,
       roomsToRent = 0, sdRentIfNotBuying = sdRent \<rparr>"

definition combination ::
  "SDPropertyOption \<Rightarrow> Borrower \<Rightarrow> real \<Rightarrow> nat \<Rightarrow> real \<Rightarrow> InvestmentScenario" where
  "combination p b dp k sdRent =
     \<lparr> sellXiamen = True, sdProperty = Some p, downPaymentPercent = dp, borrower = Some b,
       roomsToRent = k, sdRentIfNotBuying = sdRent \<rparr>"

text \<open>A loan product of the borrower qualifies for the down-payment fraction.\<close>

definition qualifies :: "Borrower \<Rightarrow> real \<Rightarrow> bool" where
  "qualifies b dp = list_ex (\<lambda>l. minDownPayment l \<le> dp) (loanOptions b)"

text \<open>
  The combinations over a grid of down-payment fractions that a predicate keeps, in the
  order of the loops of the code: properties, then borrowers, then fractions, then room
  counts from zero to the rooms of the property.
\<close>

definition enumerated ::
  "real list \<Rightarrow> (SDPropertyOption \<Rightarrow> Borrower \<Rightarrow> real \<Rightarrow> bool)
     \<Rightarrow> SDPropertyOption list \<Rightarrow> Borrower list \<Rightarrow> real \<Rightarrow> InvestmentScenario list" where
  "enumerated grid keep sdOptions borrowers sdRent =
     concat (map (\<lambda>p. concat (map (\<lambda>b. concat (map (\<lambda>dp.
       if keep p b dp then map (\<lambda>k. combination p b dp k sdRent) [0..<Suc (rooms p)]
       else []) grid)) borrowers)) sdOptions)"

text \<open>
  The generator in the words of the specification's enumeration: the baseline, and the
  product of properties, down-payment fractions of the grid, borrowers and room counts
  from zero to the property's rooms, without the combinations for which no loan product
  of the borrower qualifies.
\<close>

definition generator_spec ::
  "real list \<Rightarrow> SDPropertyOption list \<Rightarrow> Borrower list \<Rightarrow> real \<Rightarrow> InvestmentScenario list" where
  "generator_spec grid sdOptions borrowers sdRent =
     baselineScenario sdRent #
     concat (map (\<lambda>p. concat (map (\<lambda>dp. concat (map (\<lambda>b.
       if qualifies b dp then map (\<lambda>k. combination p b dp k sdRent) [0..<Suc (rooms p)]
       else []) borrowers)) grid)) sdOptions)"

text \<open>
  A borrower with an interest-free loan, and the purchase of the 2B2B property by that
  borrower at 20% down with two rooms let, for a fallback rent given as a decimal. At
  rate zero the payment is \<open>principal / 360\<close> and \<open>Math.pow\<close> is not called.
\<close>

definition loan_interest_free :: LoanOption where
  "loan_interest_free =
     \<lparr> loan_name = ''Interest-free'', loan_type = conventional, interestRate = 0,
       minDownPayment = 0, pmi = None \<rparr>"

definition borrower_interest_free :: Borrower where
  "borrower_interest_free =
     \<lparr> borrower_name = ''Family'', monthlyIncome = 8000,
       loanOptions = [loan_interest_free] \<rparr>"

definition interestFreeScenario :: "real \<Rightarrow> InvestmentScenario" where
  "interestFreeScenario rent =
     \<lparr> sellXiamen = True, sdProperty = Some option_2B2B, downPaymentPercent = fl 0.2,
       borrower = Some borrower_interest_free, roomsToRent = 2,
       sdRentIfNotBuying = fl rent \<rparr>"

text \<open>A stand-in for the platform's \<open>Math.pow\<close>: the correctly rounded power.\<close>

definition roundedPow :: "real \<Rightarrow> real \<Rightarrow> real" where
  "roundedPow a b = fl (a powr b)"

section \<open>Properties of loan selection and amortization\<close>

lemma filter_eq_append_ConsD:
  "filter P ys = us @ x # vs \<Longrightarrow>
     \<exists>ps qs. ys = ps @ x # qs \<and> filter P ps = us \<and> P x \<and> filter P qs = vs"
proof (induction us arbitrary: ys)
  case Nil
  then have "filter P ys = x # vs" by simp
  then obtain ps qs where "ys = ps @ x # qs" "\<forall>u\<in>set ps. \<not> P u" "P x" "vs = filter P qs"
    by (auto dest: filter_eq_ConsD)
  then show ?case by (intro exI[of _ ps] exI[of _ qs]) simp
next
  case (Cons u us)
  then have "filter P ys = u # (us @ x # vs)" by simp
  then obtain as cs where ys: "ys = as @ u # cs" and as: "\<forall>a\<in>set as. \<not> P a" and u: "P u"
    and cs: "us @ x # vs = filter P cs"
    by (auto dest: filter_eq_ConsD)
  from Cons.IH[OF cs[symmetric]] obtain ps qs where
    "cs = ps @ x # qs" "filter P ps = us" "P x" "filter P qs = vs" by blast
  with ys as u show ?case
    by (intro exI[of _ "as @ u # ps"] exI[of _ qs]) simp
qed

lemma foldl_pick_split:
  fixes x :: LoanOption
  defines "f \<equiv> \<lambda>best current. if interestRate current < interestRate best then current else best"
  shows "\<exists>pre post. x # xs = pre @ foldl f x xs # post \<and>
     (\<forall>y\<in>set pre. interestRate (foldl f x xs) < interestRate y) \<and>
     (\<forall>y\<in>set post. interestRate (foldl f x xs) \<le> interestRate y)"
proof (induction xs rule: rev_induct)
  case Nil
  show ?case by (rule exI[of _ "[]"], rule exI[of _ "[]"]) simp
next
  case (snoc y ys)
  let ?l = "foldl f x ys"
  from snoc obtain pre post where sp: "x # ys = pre @ ?l # post"
    and lo: "\<forall>z\<in>set pre. interestRate ?l < interestRate z"
    and hi: "\<forall>z\<in>set post. interestRate ?l \<le> interestRate z" by blast
  show ?case
  proof (cases "interestRate y < interestRate ?l")
    case True
    have all: "\<forall>z\<in>set (x # ys). interestRate y < interestRate z"
    proof
      fix z assume "z \<in> set (x # ys)"
      then have "z \<in> set pre \<or> z = ?l \<or> z \<in> set post" unfolding sp by auto
      then show "interestRate y < interestRate z" using lo hi True by fastforce
    qed
    with True show ?thesis
      by (intro exI[of _ "x # ys"] exI[of _ "[]"]) (simp add: f_def)
  next
    case False
    have "x # (ys @ [y]) = pre @ ?l # (post @ [y])" using sp by simp
    with lo hi False show ?thesis
      by (intro exI[of _ pre] exI[of _ "post @ [y]"]) (auto simp: f_def)
  qed
qed

lemma getBestLoanOption_eq:
  "getBestLoanOption b dp =
     Inr (case filter (\<lambda>opt. minDownPayment opt \<le> dp) (loanOptions b) of
            [] \<Rightarrow> None
          | x # xs \<Rightarrow>
              Some (foldl (\<lambda>best current.
                             if interestRate current < interestRate best then current else best)
                          x xs))"
  by (simp add: getBestLoanOption_def Let_def split: list.splits)

text \<open>
  Claim C7. For every borrower and down-payment fraction, loan selection raises no
  error; it returns none exactly when no product of the borrower qualifies (every
  product's minimum down payment exceeds the fraction); and a product it returns
  qualifies, stands in the borrower's list, has a strictly lower rate than every
  qualifying product before it and a rate no higher than every qualifying product after
  it: the lowest rate, the first-encountered product winning a tie.
\<close>

theorem getBestLoanOption_lowest_rate_first:
  "(\<exists>r. getBestLoanOption b dp = Inr r) \<and>
   (getBestLoanOption b dp = Inr None \<longleftrightarrow>
      (\<forall>l\<in>set (loanOptions b). dp < minDownPayment l)) \<and>
   (\<forall>l. getBestLoanOption b dp = Inr (Some l) \<longrightarrow>
      minDownPayment l \<le> dp \<and>
      (\<exists>pre post. loanOptions b = pre @ l # post \<and>
         (\<forall>y\<in>set pre. minDownPayment y \<le> dp \<longrightarrow> interestRate l < interestRate y) \<and>
         (\<forall>y\<in>set post. minDownPayment y \<le> dp \<longrightarrow> interestRate l \<le> interestRate y)))"
proof (intro conjI allI impI)
  show "\<exists>r. getBestLoanOption b dp = Inr r"
    by (simp add: getBestLoanOption_eq)
next
  show "getBestLoanOption b dp = Inr None \<longleftrightarrow> (\<forall>l\<in>set (loanOptions b). dp < minDownPayment l)"
  proof -
    have "getBestLoanOption b dp = Inr None \<longleftrightarrow>
            filter (\<lambda>opt. minDownPayment opt \<le> dp) (loanOptions b) = []"
      by (simp add: getBestLoanOption_eq split: list.splits)
    then show ?thesis by (simp add: filter_empty_conv not_le)
  qed
next
  fix l
  assume sel: "getBestLoanOption b dp = Inr (Some l)"
  let ?P = "\<lambda>opt. minDownPayment opt \<le> dp"
  let ?f = "\<lambda>best current. if interestRate current < interestRate best then current else best"
  from sel obtain x xs where fl: "filter ?P (loanOptions b) = x # xs" and l: "l = foldl ?f x xs"
    by (auto simp: getBestLoanOption_eq split: list.splits)
  from foldl_pick_split[of x xs] l obtain pre' post' where
    sp: "x # xs = pre' @ l # post'"
    and lo: "\<forall>y\<in>set pre'. interestRate l < interestRate y"
    and hi: "\<forall>y\<in>set post'. interestRate l \<le> interestRate y" by auto
  from fl sp have "filter ?P (loanOptions b) = pre' @ l # post'" by simp
  from filter_eq_append_ConsD[OF this] obtain pre post where
    dec: "loanOptions b = pre @ l # post" and pre: "filter ?P pre = pre'"
    and q: "?P l" and post: "filter ?P post = post'" by blast
  from q show "minDownPayment l \<le> dp" .
  have "\<forall>y\<in>set pre. minDownPayment y \<le> dp \<longrightarrow> interestRate l < interestRate y"
    using lo pre by auto
  moreover have "\<forall>y\<in>set post. minDownPayment y \<le> dp \<longrightarrow> interestRate l \<le> interestRate y"
    using hi post by auto
  ultimately show "\<exists>pre post. loanOptions b = pre @ l # post \<and>
         (\<forall>y\<in>set pre. minDownPayment y \<le> dp \<longrightarrow> interestRate l < interestRate y) \<and>
         (\<forall>y\<in>set post. minDownPayment y \<le> dp \<longrightarrow> interestRate l \<le> interestRate y)"
    using dec by blast
qed

text \<open>
  The VA borrower at 20% down gets the VA loan (5.5%, before the conventional loan at
  6.5%); the conventional-only borrower at 10% down gets none.
\<close>

theorem getBestLoanOption_lowest_rate_first_witness:
  "getBestLoanOption borrower_va 0.2 = Inr (Some loan_va) \<and>
   minDownPayment loan_va \<le> 0.2 \<and>
   getBestLoanOption borrower_gavin 0.1 = Inr None"
proof -
  have sel: "getBestLoanOption borrower_va 0.2 = Inr (Some loan_va)"
    by (simp add: getBestLoanOption_def borrower_va_def loan_va_def loan_conventional_def)
  have none: "\<forall>l\<in>set (loanOptions borrower_gavin). (0.1::real) < minDownPayment l"
    by (simp add: borrower_gavin_def loan_conventional_def)
  from getBestLoanOption_lowest_rate_first[of borrower_va "0.2"] sel
  have "minDownPayment loan_va \<le> 0.2" by blast
  moreover from getBestLoanOption_lowest_rate_first[of borrower_gavin "0.1"] none
  have "getBestLoanOption borrower_gavin 0.1 = Inr None" by blast
  ultimately show ?thesis using sel by simp
qed

text \<open>
  Claim C8. For a term \<open>termYears > 0\<close>, the monthly payment at rate zero is
  \<open>principal / (termYears * 12)\<close>, and at every rate above zero it is the annuity formula
  \<open>P * r * (1 + r)^n / ((1 + r)^n - 1)\<close> with \<open>r = annualRate / 12\<close> and
  \<open>n = termYears * 12\<close>: with the real power in general, and with the power by repeated
  multiplication when the term is a whole number of years.
\<close>

theorem calculateMonthlyMortgage_closed_form:
  "0 < termYears \<longrightarrow>
     calculateMonthlyMortgage P 0 termYears = P / (termYears * 12) \<and>
     (0 < annualRate \<longrightarrow>
        calculateMonthlyMortgage P annualRate termYears =
          P * (annualRate / 12 * (1 + annualRate / 12) powr (termYears * 12)) /
          ((1 + annualRate / 12) powr (termYears * 12) - 1)) \<and>
     (\<forall>k::nat. 0 < annualRate \<and> termYears = real k \<longrightarrow>
        calculateMonthlyMortgage P annualRate termYears =
          P * (annualRate / 12 * (1 + annualRate / 12) ^ (k * 12)) /
          ((1 + annualRate / 12) ^ (k * 12) - 1))"
proof (intro impI conjI allI)
  show "calculateMonthlyMortgage P 0 termYears = P / (termYears * 12)"
    by (simp add: calculateMonthlyMortgage_def)
next
  assume "0 < annualRate"
  then show "calculateMonthlyMortgage P annualRate termYears =
          P * (annualRate / 12 * (1 + annualRate / 12) powr (termYears * 12)) /
          ((1 + annualRate / 12) powr (termYears * 12) - 1)"
    by (simp add: calculateMonthlyMortgage_def Math_pow_def Let_def)
next
  fix k :: nat
  assume a: "0 < annualRate \<and> termYears = real k"
  then have pos: "0 < 1 + annualRate / 12" by simp
  have "(1 + annualRate / 12) powr (real k * 12) = (1 + annualRate / 12) ^ (k * 12)"
    using powr_realpow[OF pos, of "k * 12"] by simp
  with a show "calculateMonthlyMortgage P annualRate termYears =
          P * (annualRate / 12 * (1 + annualRate / 12) ^ (k * 12)) /
          ((1 + annualRate / 12) ^ (k * 12) - 1)"
    by (simp add: calculateMonthlyMortgage_def Math_pow_def Let_def)
qed

text \<open>
  A loan of 360 at rate zero over 30 years costs 1 a month; the loan of 440,000 at 6.2%
  over 30 years costs the annuity payment over 360 months.
\<close>

theorem calculateMonthlyMortgage_closed_form_witness:
  "calculateMonthlyMortgage 360 0 30 = 1 \<and>
   calculateMonthlyMortgage 440000 0.062 30 =
     440000 * (0.062 / 12 * (1 + 0.062 / 12) ^ 360) / ((1 + 0.062 / 12) ^ 360 - 1)"
proof -
  have "(0::real) < 30" and "(0::real) < 0.062" and "(30::real) = real (30::nat)" by simp_all
  with calculateMonthlyMortgage_closed_form[of 30 360 "0.062"]
    calculateMonthlyMortgage_closed_form[of 30 440000 "0.062"]
  have "calculateMonthlyMortgage 360 0 30 = 360 / (30 * 12)"
    and "calculateMonthlyMortgage 440000 0.062 30 =
      440000 * (0.062 / 12 * (1 + 0.062 / 12) ^ (30 * 12)) / ((1 + 0.062 / 12) ^ (30 * 12) - 1)"
    by blast+
  then show ?thesis by simp
qed

section \<open>Properties of the scenario evaluator\<close>

lemma loanTerms_not_error: "\<not> isl (loanTerms s dp)"
  by (simp add: loanTerms_def getBestLoanOption_eq split: option.splits list.splits)

lemma loanTerms_total: "\<exists>rate prem. loanTerms s dp = Inr (rate, prem)"
  using loanTerms_not_error[of s dp] by (cases "loanTerms s dp") auto

text \<open>The result of the hold-and-rent branch, field by field.\<close>

lemma calculateScenario_hold:
  assumes "\<not> sellXiamen s \<or> sdProperty s = None"
  shows "\<exists>r. calculateScenario s x y = Inr r \<and> scenario r = s \<and>
           initialInvestment r = marketValue x / exchangeRate x \<and>
           downPayment r = 0 \<and> closingCosts r = 0 \<and> remainingCash r = 0 \<and>
           monthlyMortgage r = 0 \<and> monthlyHOATax r = 0 \<and>
           monthlyRentalIncome r = monthlyRent x / exchangeRate x \<and>
           monthlyImputedRent r = 0 \<and>
           monthlyTotalIncome r = monthlyRent x / exchangeRate x \<and>
           monthlyCashflow r = monthlyRent x / exchangeRate x - sdRentIfNotBuying s \<and>
           monthlyEffectiveCashflow r = monthlyCashflow r \<and>
           annualCashflow r = monthlyCashflow r * 12 \<and>
           annualEffectiveCashflow r = annualCashflow r \<and>
           dti r = 0 \<and> mortgageToIncomeRatio r = 0"
  using assms by (auto simp add: calculateScenario_def Let_def)

text \<open>
  The result of the buy branch, field by field, from the interest rate and the premium
  the loan terms give.
\<close>

lemma calculateScenario_buy:
  assumes "sellXiamen s" and "sdProperty s = Some p"
    and "loanTerms s (downPaymentPercent s) = Inr (rate, prem)"
  shows "\<exists>r. calculateScenario s x y = Inr r \<and> scenario r = s \<and>
           initialInvestment r = calculateXiamenNetProceeds x \<and>
           downPayment r = price p * downPaymentPercent s \<and>
           closingCosts r = price p * 0.03 \<and>
           remainingCash r = calculateXiamenNetProceeds x - (downPayment r + closingCosts r) \<and>
           monthlyMortgage r =
             calculateMonthlyMortgage (price p - price p * downPaymentPercent s) rate 30 \<and>
           monthlyHOATax r = hoaAndTax p \<and>
           monthlyRentalIncome r = monthlyRent_sd p * real (roomsToRent s) \<and>
           monthlyImputedRent r = sdRentIfNotBuying s \<and>
           monthlyTotalIncome r = monthlyRentalIncome r + monthlyImputedRent r \<and>
           monthlyCashflow r =
             monthlyRentalIncome r - (monthlyMortgage r + monthlyHOATax r + prem) \<and>
           monthlyEffectiveCashflow r =
             monthlyTotalIncome r - (monthlyMortgage r + monthlyHOATax r + prem) \<and>
           annualCashflow r = monthlyCashflow r * 12 \<and>
           annualEffectiveCashflow r = monthlyEffectiveCashflow r * 12 \<and>
           cashflowAPY r = annualCashflow r / (downPayment r + closingCosts r) * 100 \<and>
           effectiveCashflowAPY r =
             annualEffectiveCashflow r / (downPayment r + closingCosts r) * 100 \<and>
           year5PropertyValue r = price p * Math_pow (1 + appreciationRate p) y \<and>
           year5Equity r =
             year5PropertyValue r -
             calculateRemainingBalance (price p - price p * downPaymentPercent s) rate 30 (y * 12) \<and>
           year5TotalReturn r =
             year5Equity r + remainingCash r + annualEffectiveCashflow r * y -
             calculateXiamenNetProceeds x \<and>
           year5ROI r = year5TotalReturn r / calculateXiamenNetProceeds x * 100 \<and>
           year5AnnualizedROI r =
             (Math_pow ((year5Equity r + remainingCash r + annualEffectiveCashflow r * y) /
                        calculateXiamenNetProceeds x) (1 / y) - 1) * 100"
  using assms by (simp add: calculateScenario_def Let_def)

lemma calculateScenario_total: "\<exists>r. calculateScenario s x y = Inr r \<and> scenario r = s"
proof (cases "\<not> sellXiamen s \<or> sdProperty s = None")
  case True
  from calculateScenario_hold[OF this, of x y] show ?thesis by blast
next
  case False
  then obtain p where "sellXiamen s" and "sdProperty s = Some p" by auto
  moreover obtain rate prem where "loanTerms s (downPaymentPercent s) = Inr (rate, prem)"
    using loanTerms_total by blast
  ultimately show ?thesis using calculateScenario_buy[of s p rate prem x y] by blast
qed

text \<open>
  Claim C5. In the buy branch, when no borrower is attached or loan selection finds no
  qualifying product, the evaluator goes on with the rate 6.5% and the premium zero:
  the mortgage payment and the loan balance are those of 6.5%, and the monthly payment
  is mortgage plus carrying cost plus zero. When loan selection returns a product, the
  rate is the product's and the premium is the product's when it has one and the
  down-payment fraction is below 0.20, and zero otherwise.
\<close>

theorem calculateScenario_loan_fallback:
  assumes "sellXiamen s" and "sdProperty s = Some p"
  shows
  "(borrower s = None \<or>
    (\<exists>b. borrower s = Some b \<and> getBestLoanOption b (downPaymentPercent s) = Inr None) \<longrightarrow>
      loanTerms s (downPaymentPercent s) = Inr (0.065, 0) \<and>
      (\<exists>r. calculateScenario s x y = Inr r \<and>
         monthlyMortgage r =
           calculateMonthlyMortgage (price p - price p * downPaymentPercent s) 0.065 30 \<and>
         year5Equity r =
           year5PropertyValue r -
           calculateRemainingBalance (price p - price p * downPaymentPercent s) 0.065 30 (y * 12) \<and>
         monthlyCashflow r =
           monthlyRentalIncome r - (monthlyMortgage r + monthlyHOATax r + 0))) \<and>
   (\<forall>b l. borrower s = Some b \<and> getBestLoanOption b (downPaymentPercent s) = Inr (Some l) \<longrightarrow>
      (\<exists>prem. prem = (if pmi l \<noteq> None \<and> downPaymentPercent s < 0.2 then the (pmi l) else 0) \<and>
         loanTerms s (downPaymentPercent s) = Inr (interestRate l, prem) \<and>
         (\<exists>r. calculateScenario s x y = Inr r \<and>
            monthlyMortgage r =
              calculateMonthlyMortgage (price p - price p * downPaymentPercent s)
                (interestRate l) 30 \<and>
            year5Equity r =
              year5PropertyValue r -
              calculateRemainingBalance (price p - price p * downPaymentPercent s)
                (interestRate l) 30 (y * 12) \<and>
            monthlyCashflow r =
              monthlyRentalIncome r - (monthlyMortgage r + monthlyHOATax r + prem))))"
proof (intro conjI impI allI)
  assume "borrower s = None \<or>
    (\<exists>b. borrower s = Some b \<and> getBestLoanOption b (downPaymentPercent s) = Inr None)"
  then have lt: "loanTerms s (downPaymentPercent s) = Inr (0.065, 0)"
    by (auto simp: loanTerms_def)
  then show "loanTerms s (downPaymentPercent s) = Inr (0.065, 0)" .
  from calculateScenario_buy[OF assms lt, of x y]
  show "\<exists>r. calculateScenario s x y = Inr r \<and>
         monthlyMortgage r =
           calculateMonthlyMortgage (price p - price p * downPaymentPercent s) 0.065 30 \<and>
         year5Equity r =
           year5PropertyValue r -
           calculateRemainingBalance (price p - price p * downPaymentPercent s) 0.065 30 (y * 12) \<and>
         monthlyCashflow r =
           monthlyRentalIncome r - (monthlyMortgage r + monthlyHOATax r + 0)"
    by blast
next
  fix b l
  assume sel: "borrower s = Some b \<and> getBestLoanOption b (downPaymentPercent s) = Inr (Some l)"
  define prem where "prem = (if pmi l \<noteq> None \<and> downPaymentPercent s < 0.2 then the (pmi l) else 0)"
  have lt: "loanTerms s (downPaymentPercent s) = Inr (interestRate l, prem)"
    using sel by (auto simp: loanTerms_def prem_def truthy_def split: option.splits)
  from calculateScenario_buy[OF assms lt, of x y]
  have "\<exists>r. calculateScenario s x y = Inr r \<and>
            monthlyMortgage r =
              calculateMonthlyMortgage (price p - price p * downPaymentPercent s)
                (interestRate l) 30 \<and>
            year5Equity r =
              year5PropertyValue r -
              calculateRemainingBalance (price p - price p * downPaymentPercent s)
                (interestRate l) 30 (y * 12) \<and>
            monthlyCashflow r =
              monthlyRentalIncome r - (monthlyMortgage r + monthlyHOATax r + prem)"
    by blast
  with lt show "\<exists>prem. prem = (if pmi l \<noteq> None \<and> downPaymentPercent s < 0.2 then the (pmi l) else 0) \<and>
         loanTerms s (downPaymentPercent s) = Inr (interestRate l, prem) \<and>
         (\<exists>r. calculateScenario s x y = Inr r \<and>
            monthlyMortgage r =
              calculateMonthlyMortgage (price p - price p * downPaymentPercent s)
                (interestRate l) 30 \<and>
            year5Equity r =
              year5PropertyValue r -
              calculateRemainingBalance (price p - price p * downPaymentPercent s)
                (interestRate l) 30 (y * 12) \<and>
            monthlyCashflow r =
              monthlyRentalIncome r - (monthlyMortgage r + monthlyHOATax r + prem))"
    unfolding prem_def by blast
qed

text \<open>
  The conventional-only borrower at 10% down has no qualifying product: the 2B2B
  purchase is evaluated at 6.5% with no premium. The low-down-payment borrower at 10%
  down gets the product at 6.2% with its premium of 150.
\<close>

theorem calculateScenario_loan_fallback_witness:
  "loanTerms (buyScenario option_2B2B borrower_gavin 0.1 2) 0.1 = Inr (0.065, 0) \<and>
   (\<exists>r. calculateScenario (buyScenario option_2B2B borrower_gavin 0.1 2) defaultXiamen 5 = Inr r \<and>
      monthlyMortgage r = calculateMonthlyMortgage 495000 0.065 30 \<and>
      monthlyCashflow r = monthlyRentalIncome r - (monthlyMortgage r + monthlyHOATax r + 0)) \<and>
   loanTerms (buyScenario option_2B2B borrower_jj 0.1 2) 0.1 = Inr (0.062, 150) \<and>
   (\<exists>r. calculateScenario (buyScenario option_2B2B borrower_jj 0.1 2) defaultXiamen 5 = Inr r \<and>
      monthlyMortgage r = calculateMonthlyMortgage 495000 0.062 30 \<and>
      monthlyCashflow r = monthlyRentalIncome r - (monthlyMortgage r + monthlyHOATax r + 150))"
proof -
  let ?s1 = "buyScenario option_2B2B borrower_gavin 0.1 2"
  let ?s2 = "buyScenario option_2B2B borrower_jj 0.1 2"
  have s1: "sellXiamen ?s1" "sdProperty ?s1 = Some option_2B2B"
    and s2: "sellXiamen ?s2" "sdProperty ?s2 = Some option_2B2B"
    by (simp_all add: buyScenario_def)
  have none: "borrower ?s1 = Some borrower_gavin \<and>
      getBestLoanOption borrower_gavin (downPaymentPercent ?s1) = Inr None"
    by (simp add: buyScenario_def getBestLoanOption_def borrower_gavin_def loan_conventional_def)
  have some: "borrower ?s2 = Some borrower_jj \<and>
      getBestLoanOption borrower_jj (downPaymentPercent ?s2) = Inr (Some loan_low_down)"
    by (simp add: buyScenario_def getBestLoanOption_def borrower_jj_def loan_low_down_def)
  have flds: "downPaymentPercent ?s1 = 0.1" "downPaymentPercent ?s2 = 0.1"
    "price option_2B2B - price option_2B2B * 0.1 = 495000"
    "interestRate loan_low_down = 0.062" "pmi loan_low_down = Some 150"
    by (simp_all add: buyScenario_def option_2B2B_def loan_low_down_def)
  from calculateScenario_loan_fallback[OF s1, of defaultXiamen 5] none
  have a: "loanTerms ?s1 0.1 = Inr (0.065, 0) \<and>
      (\<exists>r. calculateScenario ?s1 defaultXiamen 5 = Inr r \<and>
         monthlyMortgage r = calculateMonthlyMortgage 495000 0.065 30 \<and>
         monthlyCashflow r =
           monthlyRentalIncome r - (monthlyMortgage r + monthlyHOATax r + 0))"
    unfolding flds by blast
  from calculateScenario_loan_fallback[OF s2, of defaultXiamen 5] some
  have b: "loanTerms ?s2 0.1 = Inr (0.062, 150) \<and>
      (\<exists>r. calculateScenario ?s2 defaultXiamen 5 = Inr r \<and>
         monthlyMortgage r = calculateMonthlyMortgage 495000 0.062 30 \<and>
         monthlyCashflow r =
           monthlyRentalIncome r - (monthlyMortgage r + monthlyHOATax r + 150))"
    unfolding flds by (auto simp: flds)
  from a b show ?thesis by blast
qed

text \<open>
  Over the real numbers, the effective cashflow minus the actual cashflow of the buy
  branch is the imputed rent, the fallback rent of the scenario.
\<close>

lemma effective_cashflow_minus_cashflow:
  assumes "sellXiamen s" and "sdProperty s \<noteq> None"
  shows "\<exists>r. calculateScenario s x y = Inr r \<and>
           monthlyEffectiveCashflow r - monthlyCashflow r = monthlyImputedRent r \<and>
           monthlyImputedRent r = sdRentIfNotBuying s"
proof -
  from assms obtain p where p: "sdProperty s = Some p" by auto
  obtain rate prem where lt: "loanTerms s (downPaymentPercent s) = Inr (rate, prem)"
    using loanTerms_total by blast
  from calculateScenario_buy[OF assms(1) p lt, of x y] obtain r where
    "calculateScenario s x y = Inr r"
    "monthlyImputedRent r = sdRentIfNotBuying s"
    "monthlyTotalIncome r = monthlyRentalIncome r + monthlyImputedRent r"
    "monthlyCashflow r = monthlyRentalIncome r - (monthlyMortgage r + monthlyHOATax r + prem)"
    "monthlyEffectiveCashflow r =
       monthlyTotalIncome r - (monthlyMortgage r + monthlyHOATax r + prem)"
    by blast
  then show ?thesis by (intro exI[of _ r]) simp
qed



text \<open>
  Claim C10. The evaluator raises on no scenario. On every scenario whose candidate
  property is null, whatever its liquidate flag, it returns the hold-and-rent result:
  down payment, closing costs, mortgage, imputed rent and DTI are zero, the cashflow is
  the converted rent of the kept property minus the fallback rent, and the whole result
  is the one of the same scenario with the liquidate flag off (but for the scenario it
  echoes).
\<close>

theorem calculateScenario_total_null_property:
  "(\<exists>r. calculateScenario s x y = Inr r) \<and>
   (sdProperty s = None \<longrightarrow>
      (\<exists>r. calculateScenario s x y = Inr r \<and> scenario r = s \<and>
         downPayment r = 0 \<and> closingCosts r = 0 \<and> monthlyMortgage r = 0 \<and>
         monthlyImputedRent r = 0 \<and> dti r = 0 \<and> mortgageToIncomeRatio r = 0 \<and>
         monthlyCashflow r = monthlyRent x / exchangeRate x - sdRentIfNotBuying s \<and>
         monthlyEffectiveCashflow r = monthlyCashflow r \<and>
         calculateScenario (s\<lparr>sellXiamen := False\<rparr>) x y =
           Inr (r\<lparr>scenario := s\<lparr>sellXiamen := False\<rparr>\<rparr>)))"
proof (intro conjI impI)
  show "\<exists>r. calculateScenario s x y = Inr r"
    using calculateScenario_total[of s x y] by blast
next
  assume none: "sdProperty s = None"
  then have g: "\<not> sellXiamen s \<or> sdProperty s = None" by simp
  from calculateScenario_hold[OF g, of x y] obtain r where
    r: "calculateScenario s x y = Inr r" and
    f: "scenario r = s" "downPayment r = 0" "closingCosts r = 0" "monthlyMortgage r = 0"
       "monthlyImputedRent r = 0" "dti r = 0" "mortgageToIncomeRatio r = 0"
       "monthlyCashflow r = monthlyRent x / exchangeRate x - sdRentIfNotBuying s"
       "monthlyEffectiveCashflow r = monthlyCashflow r"
    by blast
  have "calculateScenario (s\<lparr>sellXiamen := False\<rparr>) x y =
          Inr (r\<lparr>scenario := s\<lparr>sellXiamen := False\<rparr>\<rparr>)"
    using r none by (auto simp: calculateScenario_def Let_def)
  with r f show "\<exists>r. calculateScenario s x y = Inr r \<and> scenario r = s \<and>
         downPayment r = 0 \<and> closingCosts r = 0 \<and> monthlyMortgage r = 0 \<and>
         monthlyImputedRent r = 0 \<and> dti r = 0 \<and> mortgageToIncomeRatio r = 0 \<and>
         monthlyCashflow r = monthlyRent x / exchangeRate x - sdRentIfNotBuying s \<and>
         monthlyEffectiveCashflow r = monthlyCashflow r \<and>
         calculateScenario (s\<lparr>sellXiamen := False\<rparr>) x y =
           Inr (r\<lparr>scenario := s\<lparr>sellXiamen := False\<rparr>\<rparr>)"
    by blast
qed

text \<open>
  A scenario that breaks the invariant: the liquidate flag is on, a borrower is attached
  and the candidate property is null.
\<close>

theorem calculateScenario_total_null_property_witness:
  "sdProperty nullPropertyScenario = None \<and> sellXiamen nullPropertyScenario \<and>
   (\<exists>r. calculateScenario nullPropertyScenario defaultXiamen 5 = Inr r \<and>
      downPayment r = 0 \<and> monthlyMortgage r = 0 \<and> monthlyImputedRent r = 0 \<and> dti r = 0)"
proof -
  have h: "sdProperty nullPropertyScenario = None" "sellXiamen nullPropertyScenario"
    by (simp_all add: nullPropertyScenario_def)
  from calculateScenario_total_null_property[of nullPropertyScenario defaultXiamen 5] h(1)
  have "\<exists>r. calculateScenario nullPropertyScenario defaultXiamen 5 = Inr r \<and>
      downPayment r = 0 \<and> monthlyMortgage r = 0 \<and> monthlyImputedRent r = 0 \<and> dti r = 0"
    by blast
  with h show ?thesis by blast
qed

section \<open>Properties of the Pareto selector\<close>

lemma dominates_irrefl: "\<not> dominates obj1 obj2 A A"
  by (simp add: dominates_def)

lemma dominates_trans:
  "dominates obj1 obj2 C B \<Longrightarrow> dominates obj1 obj2 B A \<Longrightarrow> dominates obj1 obj2 C A"
  by (auto simp: dominates_def)

text \<open>
  The inner loop finds a dominating result exactly when one exists: skipping the
  result itself loses nothing, since no result dominates itself.
\<close>

lemma isDominated_iff:
  "isDominated h a rs \<longleftrightarrow>
     (\<exists>b\<in>set rs. dominates cashflowAPY year5AnnualizedROI (h b) (h a))"
  by (induction rs) (auto simp: dominates_def)

lemma set_findParetoFrontier:
  "set (findParetoFrontier h rs) =
     {a \<in> set rs. \<forall>b\<in>set rs. \<not> dominates cashflowAPY year5AnnualizedROI (h b) (h a)}"
  by (auto simp: findParetoFrontier_def isDominated_iff)

text \<open>Every dominated result is dominated by a result that nothing dominates.\<close>

lemma dominated_by_maximal:
  assumes "b \<in> set rs" and "dominates obj1 obj2 (h b) (h a)"
  shows "\<exists>c\<in>set rs. dominates obj1 obj2 (h c) (h a) \<and>
           (\<forall>d\<in>set rs. \<not> dominates obj1 obj2 (h d) (h c))"
  using assms
proof (induction "card {d \<in> set rs. dominates obj1 obj2 (h d) (h b)}" arbitrary: b rule: less_induct)
  case less
  show ?case
  proof (cases "\<exists>d\<in>set rs. dominates obj1 obj2 (h d) (h b)")
    case False
    with less.prems show ?thesis by blast
  next
    case True
    then obtain d where d: "d \<in> set rs" "dominates obj1 obj2 (h d) (h b)" by blast
    have "{e \<in> set rs. dominates obj1 obj2 (h e) (h d)} \<subset> {e \<in> set rs. dominates obj1 obj2 (h e) (h b)}"
      using d dominates_trans[of obj1 obj2 _ "h d" "h b"] dominates_irrefl[of obj1 obj2 "h d"]
      by blast
    then have "card {e \<in> set rs. dominates obj1 obj2 (h e) (h d)}
                 < card {e \<in> set rs. dominates obj1 obj2 (h e) (h b)}"
      by (intro psubset_card_mono) simp_all
    moreover have "dominates obj1 obj2 (h d) (h a)"
      using d(2) less.prems(2) by (rule dominates_trans)
    ultimately show ?thesis using less.hyps d(1) by blast
  qed
qed

text \<open>
  Claim C2. For every result collection, no result the selector returns is dominated
  by a result of the input, and every result of the input it does not return is
  dominated by a result it returns. Domination is the rule of the specification on the
  two objectives the selector reads, \<open>cashflowAPY\<close> and \<open>year5AnnualizedROI\<close>; the
  selector filters nothing, so the filtered set is the input.
\<close>

theorem findParetoFrontier_sound_complete:
  "(\<forall>a\<in>set (findParetoFrontier h rs).
      a \<in> set rs \<and>
      (\<forall>b\<in>set rs. \<not> dominates cashflowAPY year5AnnualizedROI (h b) (h a))) \<and>
   (\<forall>a\<in>set rs. a \<notin> set (findParetoFrontier h rs) \<longrightarrow>
      (\<exists>b\<in>set (findParetoFrontier h rs).
         dominates cashflowAPY year5AnnualizedROI (h b) (h a)))"
proof (rule conjI)
  show "\<forall>a\<in>set (findParetoFrontier h rs).
      a \<in> set rs \<and>
      (\<forall>b\<in>set rs. \<not> dominates cashflowAPY year5AnnualizedROI (h b) (h a))"
    by (simp add: set_findParetoFrontier)
next
  show "\<forall>a\<in>set rs. a \<notin> set (findParetoFrontier h rs) \<longrightarrow>
      (\<exists>b\<in>set (findParetoFrontier h rs).
         dominates cashflowAPY year5AnnualizedROI (h b) (h a))"
  proof (intro ballI impI)
    fix a assume "a \<in> set rs" and "a \<notin> set (findParetoFrontier h rs)"
    then obtain b where "b \<in> set rs" "dominates cashflowAPY year5AnnualizedROI (h b) (h a)"
      by (auto simp: set_findParetoFrontier)
    from dominated_by_maximal[OF this] obtain c where
      "c \<in> set rs" "dominates cashflowAPY year5AnnualizedROI (h c) (h a)"
      "\<forall>d\<in>set rs. \<not> dominates cashflowAPY year5AnnualizedROI (h d) (h c)"
      by blast
    then show "\<exists>b\<in>set (findParetoFrontier h rs).
         dominates cashflowAPY year5AnnualizedROI (h b) (h a)"
      by (auto simp: set_findParetoFrontier)
  qed
qed

lemma exampleStore_fields:
  "cashflowAPY (exampleStore 10) = 1" "year5AnnualizedROI (exampleStore 10) = 1"
  "cashflowAPY (exampleStore 11) = 2" "year5AnnualizedROI (exampleStore 11) = 0.5"
  "cashflowAPY (exampleStore 12) = 0" "year5AnnualizedROI (exampleStore 12) = 1"
  "effectiveCashflowAPY (exampleStore 10) = 5" "dti (exampleStore 10) = 50"
  "effectiveCashflowAPY (exampleStore 11) = 3" "dti (exampleStore 11) = 10"
  "effectiveCashflowAPY (exampleStore 12) = 4" "dti (exampleStore 12) = 10"
  by (simp_all add: exampleStore_def plotResult_def)

lemma findParetoFrontier_example: "findParetoFrontier exampleStore [10, 11, 12] = [10, 11]"
  by (simp add: findParetoFrontier_def exampleStore_fields)

text \<open>
  Of the three example results the selector returns the first two; the third is
  dominated by the first.
\<close>

theorem findParetoFrontier_sound_complete_witness:
  "10 \<in> set (findParetoFrontier exampleStore [10, 11, 12]) \<and>
   \<not> dominates cashflowAPY year5AnnualizedROI (exampleStore 11) (exampleStore 10) \<and>
   12 \<notin> set (findParetoFrontier exampleStore [10, 11, 12]) \<and>
   (\<exists>b\<in>set (findParetoFrontier exampleStore [10, 11, 12]).
      dominates cashflowAPY year5AnnualizedROI (exampleStore b) (exampleStore 12))"
proof -
  have m: "10 \<in> set (findParetoFrontier exampleStore [10, 11, 12])"
    "12 \<notin> set (findParetoFrontier exampleStore [10, 11, 12])"
    by (simp_all add: findParetoFrontier_example)
  have n: "(11::nat) \<in> set [10, 11, 12]" "(12::nat) \<in> set [10, 11, 12]"
    by simp_all
  note t = findParetoFrontier_sound_complete[of exampleStore "[10, 11, 12]"]
  from t m(1) n(1)
  have "\<not> dominates cashflowAPY year5AnnualizedROI (exampleStore 11) (exampleStore 10)"
    by blast
  moreover from t m(2) n(2)
  have "\<exists>b\<in>set (findParetoFrontier exampleStore [10, 11, 12]).
      dominates cashflowAPY year5AnnualizedROI (exampleStore b) (exampleStore 12)"
    by blast
  ultimately show ?thesis using m by blast
qed

text \<open>
  Claim C1, as the code has it. The selector \<open>findParetoFrontier\<close> takes the result
  collection alone. It maximizes the actual \<open>cashflowAPY\<close> and the horizon annualized
  ROI, restricts the collection by no feasibility predicate, and returns the
  non-dominated results of the whole input in ascending order of \<open>cashflowAPY\<close>: it is
  the selector of the specification at these two objectives and the predicate that
  holds of every result.
\<close>

theorem findParetoFrontier_objectives:
  "findParetoFrontier h rs =
     paretoSelector_spec cashflowAPY year5AnnualizedROI (\<lambda>r. True) h rs \<and>
   sorted (map (\<lambda>a. cashflowAPY (h a)) (findParetoFrontier h rs)) \<and>
   set (findParetoFrontier h rs) =
     {a \<in> set rs. \<forall>b\<in>set rs. \<not> dominates cashflowAPY year5AnnualizedROI (h b) (h a)}"
proof (intro conjI)
  have "filter (\<lambda>a. \<not> isDominated h a rs) rs =
        filter (\<lambda>a. \<not> list_ex (\<lambda>b. dominates cashflowAPY year5AnnualizedROI (h b) (h a)) rs) rs"
    by (simp add: isDominated_iff list_ex_iff)
  then show "findParetoFrontier h rs =
     paretoSelector_spec cashflowAPY year5AnnualizedROI (\<lambda>r. True) h rs"
    by (simp add: findParetoFrontier_def paretoSelector_spec_def)
next
  show "sorted (map (\<lambda>a. cashflowAPY (h a)) (findParetoFrontier h rs))"
    by (simp add: findParetoFrontier_def)
next
  show "set (findParetoFrontier h rs) =
     {a \<in> set rs. \<forall>b\<in>set rs. \<not> dominates cashflowAPY year5AnnualizedROI (h b) (h a)}"
    by (rule set_findParetoFrontier)
qed

theorem findParetoFrontier_objectives_witness:
  "paretoSelector_spec cashflowAPY year5AnnualizedROI (\<lambda>r. True) exampleStore [10, 11, 12] =
     [10, 11] \<and>
   sorted (map (\<lambda>a. cashflowAPY (exampleStore a)) [10, 11])"
proof -
  note t = findParetoFrontier_objectives[of exampleStore "[10, 11, 12]"]
  from t have "findParetoFrontier exampleStore [10, 11, 12] =
      paretoSelector_spec cashflowAPY year5AnnualizedROI (\<lambda>r. True) exampleStore [10, 11, 12]"
    by (rule conjunct1)
  then have "paretoSelector_spec cashflowAPY year5AnnualizedROI (\<lambda>r. True) exampleStore
      [10, 11, 12] = findParetoFrontier exampleStore [10, 11, 12]"
    by (rule sym)
  moreover from t
  have "sorted (map (\<lambda>a. cashflowAPY (exampleStore a)) (findParetoFrontier exampleStore [10, 11, 12]))"
    by (rule conjunct1[OF conjunct2])
  ultimately show ?thesis unfolding findParetoFrontier_example by (rule conjI)
qed

text \<open>
  Claim C1 as stated fails. With effective APY and annualized ROI as objectives and
  DTI below 43 as feasibility, the selector would return the third example result
  alone. \<open>findParetoFrontier\<close> returns the first, whose DTI is 50, and the second, which
  the third dominates on the stated objectives; its output is in descending order of
  effective APY. The chart data \<open>paretoData\<close>, which has the DTI filter and the
  effective APY, selects no frontier: it keeps the second result with the third.
\<close>

theorem findParetoFrontier_default_objectives_counterexample:
  "findParetoFrontier exampleStore [10, 11, 12] = [10, 11] \<and>
   paretoSelector_spec effectiveCashflowAPY year5AnnualizedROI (\<lambda>r. dti r < 43)
     exampleStore [10, 11, 12] = [12] \<and>
   \<not> dti (exampleStore 10) < 43 \<and>
   dominates effectiveCashflowAPY year5AnnualizedROI (exampleStore 12) (exampleStore 11) \<and>
   \<not> sorted (map (\<lambda>a. effectiveCashflowAPY (exampleStore a)) [10, 11]) \<and>
   paretoData (map exampleStore [10, 11, 12]) =
     [\<lparr> point_cashflowAPY = 3, point_year5ROI = 0.5 \<rparr>,
      \<lparr> point_cashflowAPY = 4, point_year5ROI = 1 \<rparr>]"
proof (intro conjI)
  show "paretoData (map exampleStore [10, 11, 12]) =
     [\<lparr> point_cashflowAPY = 3, point_year5ROI = 0.5 \<rparr>,
      \<lparr> point_cashflowAPY = 4, point_year5ROI = 1 \<rparr>]"
    by (simp add: paretoData_def exampleStore_def plotResult_def buyScenario_def)
  show "findParetoFrontier exampleStore [10, 11, 12] = [10, 11]"
    by (rule findParetoFrontier_example)
  show "paretoSelector_spec effectiveCashflowAPY year5AnnualizedROI (\<lambda>r. dti r < 43)
     exampleStore [10, 11, 12] = [12]"
    by (simp add: paretoSelector_spec_def dominates_def exampleStore_fields)
  show "\<not> dti (exampleStore 10) < 43"
    by (simp add: exampleStore_fields)
  show "dominates effectiveCashflowAPY year5AnnualizedROI (exampleStore 12) (exampleStore 11)"
    by (simp add: dominates_def exampleStore_fields)
  show "\<not> sorted (map (\<lambda>a. effectiveCashflowAPY (exampleStore a)) [10, 11])"
    by (simp add: exampleStore_fields)
qed

section \<open>Properties of the scenario-space generators\<close>

lemma forEach_Inr: "forEach xs (\<lambda>x. Inr (g x)) = Inr (concat (map g xs))"
  by (induction xs) simp_all

lemma forEach_singletons: "forEach xs (\<lambda>x. Inr [f x]) = Inr (map f xs)"
  by (induction xs) simp_all

lemma scenario_projr: "scenario (projr (calculateScenario s x y)) = s"
  using calculateScenario_total[of s x y] by auto

lemma calculateScenario_case:
  "(case calculateScenario s x y of Inl e \<Rightarrow> Inl e | Inr r \<Rightarrow> F r) =
     F (projr (calculateScenario s x y))"
  using calculateScenario_total[of s x y] by auto

lemma getBestLoanOption_cases:
  "getBestLoanOption b dp =
     (if qualifies b dp
      then Inr (Some (the (projr (getBestLoanOption b dp)))) else Inr None)"
  by (auto simp: getBestLoanOption_eq qualifies_def list_ex_iff filter_empty_conv
           split: list.splits)

lemma combination_simps:
  "sellXiamen (combination p b dp k sdRent)"
  "sdProperty (combination p b dp k sdRent) = Some p"
  "downPaymentPercent (combination p b dp k sdRent) = dp"
  "borrower (combination p b dp k sdRent) = Some b"
  "roomsToRent (combination p b dp k sdRent) = k"
  "sdRentIfNotBuying (combination p b dp k sdRent) = sdRent"
  "\<not> sellXiamen (baselineScenario sdRent)"
  by (simp_all add: combination_def baselineScenario_def)

lemma combination_eq_iff:
  "combination p b dp k sdRent = combination p' b' dp' k' sdRent' \<longleftrightarrow>
     p = p' \<and> b = b' \<and> dp = dp' \<and> k = k' \<and> sdRent = sdRent'"
  by (auto simp: combination_def)

lemma in_set_concat_map: "s \<in> set (concat (map F xs)) \<longleftrightarrow> (\<exists>x\<in>set xs. s \<in> set (F x))"
  by auto

lemma in_set_rooms:
  "s \<in> set (if c then map f [0..<Suc n] else []) \<longleftrightarrow> c \<and> (\<exists>k\<le>n. s = f k)"
proof -
  have "set [0..<Suc n] = {k. k \<le> n}" by auto
  then have "set (map f [0..<Suc n]) = {f k |k. k \<le> n}"
    unfolding set_map by blast
  then show ?thesis by auto
qed

lemma set_enumerated:
  "s \<in> set (enumerated grid keep ps bs sdRent) \<longleftrightarrow>
     (\<exists>p\<in>set ps. \<exists>b\<in>set bs. \<exists>dp\<in>set grid.
        keep p b dp \<and> (\<exists>k\<le>rooms p. s = combination p b dp k sdRent))"
  unfolding enumerated_def in_set_concat_map in_set_rooms ..

lemma enumerated_liquidate: "s \<in> set (enumerated grid keep ps bs sdRent) \<Longrightarrow> sellXiamen s"
  by (auto simp: set_enumerated combination_simps)

text \<open>What \<open>generateScenarios\<close> enumerates.\<close>

lemma generateScenarios_eq:
  "generateScenarios x ps bs sdRent =
     Inr (baselineScenario sdRent #
          enumerated downPaymentOptions (\<lambda>p b dp. qualifies b dp) ps bs sdRent)"
proof -
  have dps: "(case getBestLoanOption b dp of
                Inl e \<Rightarrow> Inl e
              | Inr None \<Rightarrow> Inr []
              | Inr (Some loanOption) \<Rightarrow>
                  (let maxRooms = rooms p
                   in forEach [0..<Suc maxRooms] (\<lambda>k. Inr [combination p b dp k sdRent]))) =
      Inr (if qualifies b dp
           then map (\<lambda>k. combination p b dp k sdRent) [0..<Suc (rooms p)] else [])" for p b dp
    by (subst getBestLoanOption_cases) (simp add: forEach_singletons Let_def del: upt_Suc)
  show ?thesis
    unfolding generateScenarios_def combination_def[symmetric] baselineScenario_def[symmetric]
      enumerated_def
    by (simp add: dps forEach_Inr del: upt_Suc)
qed

text \<open>
  What \<open>allResults\<close> evaluates: the results of the baseline and of the combinations
  that pass both skips, in the order of the loops.
\<close>

lemma allResults_eq:
  "allResults x ps bs sdRent y =
     Inr (map (\<lambda>s. projr (calculateScenario s x y))
           (baselineScenario sdRent #
            enumerated dpOptions
              (\<lambda>p b dp. qualifies b dp \<and>
                 price p * dp + price p * 0.03 \<le> calculateXiamenNetProceeds x)
              ps bs sdRent))"
proof -
  have dps: "(case getBestLoanOption b dp of
                Inl e \<Rightarrow> Inl e
              | Inr None \<Rightarrow> Inr []
              | Inr (Some loanOption) \<Rightarrow>
                  (let downPayment' = price p * dp;
                       closingCosts' = price p * 0.03
                   in if downPayment' + closingCosts' > calculateXiamenNetProceeds x then Inr []
                      else forEach [0..<Suc (rooms p)] (\<lambda>k.
                             case calculateScenario (combination p b dp k sdRent) x y of
                               Inl e \<Rightarrow> Inl e
                             | Inr r \<Rightarrow> Inr [r]))) =
      Inr (map (\<lambda>s. projr (calculateScenario s x y))
            (if qualifies b dp \<and>
                price p * dp + price p * 0.03 \<le> calculateXiamenNetProceeds x
             then map (\<lambda>k. combination p b dp k sdRent) [0..<Suc (rooms p)] else []))"
    for p b dp
    by (subst getBestLoanOption_cases)
       (simp add: calculateScenario_case forEach_singletons Let_def o_def not_less del: upt_Suc)
  show ?thesis
    unfolding allResults_def combination_def[symmetric] baselineScenario_def[symmetric]
      enumerated_def
    by (simp add: dps calculateScenario_case forEach_Inr Let_def map_concat o_def del: upt_Suc)
qed

lemma forEach_single: "forEach [x] body = body x"
  by (cases "body x") simp_all

text \<open>The one-borrower variant is \<open>allResults\<close> on the list of that borrower.\<close>

lemma allResults_currentBorrower_eq:
  "allResults_currentBorrower x ps b sdRent y = allResults x ps [b] sdRent y"
  unfolding allResults_currentBorrower_def allResults_def forEach_single ..

text \<open>
  The gate of \<open>allResults\<close>: every result of a buy scenario it evaluates has a down
  payment and closing costs within the net proceeds.
\<close>

lemma allResults_affordable:
  assumes "allResults x ps bs sdRent y = Inr rs" and "r \<in> set rs"
    and "sellXiamen (scenario r)"
  shows "downPayment r + closingCosts r \<le> calculateXiamenNetProceeds x"
proof -
  let ?keep = "\<lambda>p b dp. qualifies b dp \<and>
                 price p * dp + price p * 0.03 \<le> calculateXiamenNetProceeds x"
  define L where "L = baselineScenario sdRent # enumerated dpOptions ?keep ps bs sdRent"
  from assms(1) have "rs = map (\<lambda>s. projr (calculateScenario s x y)) L"
    unfolding allResults_eq L_def by (simp only: sum.inject)
  with assms(2) obtain s where r: "r = projr (calculateScenario s x y)" and "s \<in> set L"
    by auto
  then have s: "s = baselineScenario sdRent \<or> s \<in> set (enumerated dpOptions ?keep ps bs sdRent)"
    unfolding L_def by simp
  from r assms(3) have "sellXiamen s" by (simp add: scenario_projr)
  with s have "s \<in> set (enumerated dpOptions ?keep ps bs sdRent)"
    using combination_simps(7)[of sdRent] by auto
  then obtain p b dp k where c: "s = combination p b dp k sdRent"
    and le: "price p * dp + price p * 0.03 \<le> calculateXiamenNetProceeds x"
    unfolding set_enumerated by blast
  obtain rate prem where "loanTerms s (downPaymentPercent s) = Inr (rate, prem)"
    using loanTerms_total by blast
  from calculateScenario_buy[OF _ _ this, of p x y] c
  have "downPayment r = price p * dp" "closingCosts r = price p * 0.03"
    unfolding r by (auto simp: combination_simps)
  with le show ?thesis by simp
qed

text \<open>
  \<open>generateScenarios\<close> applies the loan skip alone: it emits every combination of a
  property, a borrower, a down-payment fraction of its grid for which a loan product
  qualifies, and a room count up to the property's rooms, whatever the down payment and
  closing costs are against the net proceeds.
\<close>

lemma generateScenarios_emits:
  assumes "p \<in> set ps" and "b \<in> set bs" and "dp \<in> set downPaymentOptions"
    and "\<exists>l\<in>set (loanOptions b). minDownPayment l \<le> dp" and "k \<le> rooms p"
  shows "\<exists>scs. generateScenarios x ps bs sdRent = Inr scs \<and>
           combination p b dp k sdRent \<in> set scs"
proof -
  from assms(4) have "qualifies b dp"
    by (simp add: qualifies_def list_ex_iff)
  with assms(1-3,5)
  have "combination p b dp k sdRent \<in>
          set (enumerated downPaymentOptions (\<lambda>p b dp. qualifies b dp) ps bs sdRent)"
    unfolding set_enumerated by blast
  then show ?thesis by (simp add: generateScenarios_eq)
qed

text \<open>
  Claim C3: every liquidate-and-buy scenario the generator emits has a down payment
  plus closing costs within the net proceeds. \<open>allResults\<close> keeps to it (lemma
  \<open>allResults_affordable\<close>); \<open>generateScenarios\<close> does not. With the default data it
  emits the purchase of the 3B2B property at 50% down, whose down payment and closing
  costs (397,500) exceed the net proceeds (about 371,279).
\<close>

theorem generateScenarios_no_affordability_gate:
  "(\<exists>scs. generateScenarios defaultXiamen [option_3B2B] [borrower_gavin] 850 = Inr scs \<and>
      combination option_3B2B borrower_gavin 0.5 0 850 \<in> set scs) \<and>
   price option_3B2B * 0.5 + price option_3B2B * 0.03 > calculateXiamenNetProceeds defaultXiamen"
proof -
  have h: "option_3B2B \<in> set [option_3B2B]" "borrower_gavin \<in> set [borrower_gavin]"
    "0.5 \<in> set downPaymentOptions"
    "\<exists>l\<in>set (loanOptions borrower_gavin). minDownPayment l \<le> 0.5"
    "0 \<le> rooms option_3B2B"
    by (simp_all add: downPaymentOptions_def borrower_gavin_def loan_conventional_def)
  have "price option_3B2B * 0.5 + price option_3B2B * 0.03 > calculateXiamenNetProceeds defaultXiamen"
    by (simp add: option_3B2B_def calculateXiamenNetProceeds_def defaultXiamen_def)
  with generateScenarios_emits[OF h, of defaultXiamen 850]
  show ?thesis by blast
qed

lemma combination_neq_baseline [simp]: "combination p b dp k sdRent \<noteq> baselineScenario sdRent'"
  by (simp add: combination_def baselineScenario_def)

lemma qualifies_iff: "qualifies b dp \<longleftrightarrow> (\<exists>l\<in>set (loanOptions b). minDownPayment l \<le> dp)"
  by (simp add: qualifies_def list_ex_iff)

lemma set_generator_spec:
  "s \<in> set (generator_spec grid ps bs sdRent) \<longleftrightarrow>
     s = baselineScenario sdRent \<or>
     (\<exists>p\<in>set ps. \<exists>dp\<in>set grid. \<exists>b\<in>set bs.
        qualifies b dp \<and> (\<exists>k\<le>rooms p. s = combination p b dp k sdRent))"
  unfolding generator_spec_def set_simps insert_iff in_set_concat_map in_set_rooms ..

lemma allResults_scenarios:
  "\<exists>rs. allResults x ps bs sdRent y = Inr rs \<and>
     map scenario rs =
       baselineScenario sdRent #
       enumerated dpOptions
         (\<lambda>p b dp. qualifies b dp \<and>
            price p * dp + price p * 0.03 \<le> calculateXiamenNetProceeds x)
         ps bs sdRent"
  unfolding allResults_eq by (simp add: scenario_projr o_def)

text \<open>
  Claim C4, as the code has it. \<open>allResults\<close> raises no error and evaluates, each by
  the evaluator, exactly the baseline followed by the combinations of a property, a
  borrower, a down-payment fraction of the grid 0, 5, 10, 15, 20, 25, 30, 35, 40, 50,
  60, 70, 80 percent and a room count from zero to the rooms of the property, for
  which a loan product of the borrower qualifies and the down payment plus the closing
  costs do not exceed the net proceeds. The baseline is its only scenario with the
  liquidate flag off.
\<close>

theorem allResults_enumeration:
  "\<exists>rs. allResults x ps bs sdRent y = Inr rs \<and>
     map scenario rs =
       baselineScenario sdRent #
       enumerated dpOptions
         (\<lambda>p b dp. qualifies b dp \<and>
            price p * dp + price p * 0.03 \<le> calculateXiamenNetProceeds x)
         ps bs sdRent \<and>
     (\<forall>r\<in>set rs. calculateScenario (scenario r) x y = Inr r) \<and>
     length (filter (\<lambda>s. \<not> sellXiamen s) (map scenario rs)) = 1 \<and>
     (\<forall>s. s \<in> set (map scenario rs) \<longleftrightarrow>
        s = baselineScenario sdRent \<or>
        (\<exists>p\<in>set ps. \<exists>b\<in>set bs.
           \<exists>dp\<in>set [0, 0.05, 0.1, 0.15, 0.2, 0.25, 0.3, 0.35, 0.4, 0.5, 0.6, 0.7, 0.8].
             (\<exists>l\<in>set (loanOptions b). minDownPayment l \<le> dp) \<and>
             price p * dp + price p * 0.03 \<le> calculateXiamenNetProceeds x \<and>
             (\<exists>k\<le>rooms p. s = combination p b dp k sdRent)))"
proof -
  let ?keep = "\<lambda>p b dp. qualifies b dp \<and>
                 price p * dp + price p * 0.03 \<le> calculateXiamenNetProceeds x"
  define E where "E = enumerated dpOptions ?keep ps bs sdRent"
  define rs where "rs = map (\<lambda>s. projr (calculateScenario s x y)) (baselineScenario sdRent # E)"
  have A: "allResults x ps bs sdRent y = Inr rs"
    unfolding allResults_eq rs_def E_def ..
  have B: "map scenario rs = baselineScenario sdRent # E"
    unfolding rs_def by (simp add: scenario_projr o_def)
  have C: "\<forall>r\<in>set rs. calculateScenario (scenario r) x y = Inr r"
  proof
    fix r assume "r \<in> set rs"
    then obtain s where r: "r = projr (calculateScenario s x y)"
      unfolding rs_def by auto
    obtain r' where "calculateScenario s x y = Inr r'"
      using calculateScenario_total[of s x y] by blast
    then show "calculateScenario (scenario r) x y = Inr r"
      unfolding r scenario_projr by simp
  qed
  have "filter (\<lambda>s. \<not> sellXiamen s) E = []"
    unfolding E_def by (auto simp: filter_empty_conv dest: enumerated_liquidate)
  then have D: "length (filter (\<lambda>s. \<not> sellXiamen s) (map scenario rs)) = 1"
    unfolding B by (simp add: combination_simps)
  have F: "\<forall>s. s \<in> set (map scenario rs) \<longleftrightarrow>
        s = baselineScenario sdRent \<or>
        (\<exists>p\<in>set ps. \<exists>b\<in>set bs.
           \<exists>dp\<in>set [0, 0.05, 0.1, 0.15, 0.2, 0.25, 0.3, 0.35, 0.4, 0.5, 0.6, 0.7, 0.8].
             (\<exists>l\<in>set (loanOptions b). minDownPayment l \<le> dp) \<and>
             price p * dp + price p * 0.03 \<le> calculateXiamenNetProceeds x \<and>
             (\<exists>k\<le>rooms p. s = combination p b dp k sdRent))"
    unfolding B E_def set_simps insert_iff set_enumerated qualifies_iff
      dpOptions_def[symmetric] conj_assoc by (intro allI refl)
  show ?thesis
    by (rule exI[of _ rs]) (intro conjI A B[unfolded E_def] C D F)
qed

text \<open>
  With the default data, one property (3B2B) and one borrower: the purchase at 40% down
  with three rooms let is evaluated, and the baseline is the only scenario that keeps
  the source property.
\<close>

theorem allResults_enumeration_witness:
  "\<exists>rs. allResults defaultXiamen [option_3B2B] [borrower_gavin] 850 5 = Inr rs \<and>
     combination option_3B2B borrower_gavin 0.4 3 850 \<in> set (map scenario rs) \<and>
     length (filter (\<lambda>s. \<not> sellXiamen s) (map scenario rs)) = 1"
proof -
  from allResults_enumeration[of defaultXiamen "[option_3B2B]" "[borrower_gavin]" 850 5]
  obtain rs where A: "allResults defaultXiamen [option_3B2B] [borrower_gavin] 850 5 = Inr rs"
    and D: "length (filter (\<lambda>s. \<not> sellXiamen s) (map scenario rs)) = 1"
    and F: "\<forall>s. s \<in> set (map scenario rs) \<longleftrightarrow>
        s = baselineScenario 850 \<or>
        (\<exists>p\<in>set [option_3B2B]. \<exists>b\<in>set [borrower_gavin].
           \<exists>dp\<in>set [0, 0.05, 0.1, 0.15, 0.2, 0.25, 0.3, 0.35, 0.4, 0.5, 0.6, 0.7, 0.8].
             (\<exists>l\<in>set (loanOptions b). minDownPayment l \<le> dp) \<and>
             price p * dp + price p * 0.03 \<le> calculateXiamenNetProceeds defaultXiamen \<and>
             (\<exists>k\<le>rooms p. s = combination p b dp k 850))"
    by blast
  have q: "\<exists>l\<in>set (loanOptions borrower_gavin). minDownPayment l \<le> 0.4"
    by (simp add: borrower_gavin_def loan_conventional_def)
  have a: "price option_3B2B * 0.4 + price option_3B2B * 0.03 \<le> calculateXiamenNetProceeds defaultXiamen"
    by (simp add: option_3B2B_def calculateXiamenNetProceeds_def defaultXiamen_def)
  have k: "\<exists>k\<le>rooms option_3B2B. combination option_3B2B borrower_gavin 0.4 3 850 =
             combination option_3B2B borrower_gavin 0.4 k 850"
    by (intro exI[of _ 3]) (simp add: option_3B2B_def)
  have g: "(0.4::real) \<in> set [0, 0.05, 0.1, 0.15, 0.2, 0.25, 0.3, 0.35, 0.4, 0.5, 0.6, 0.7, 0.8]"
    by simp
  have "\<exists>p\<in>set [option_3B2B]. \<exists>b\<in>set [borrower_gavin].
           \<exists>dp\<in>set [0, 0.05, 0.1, 0.15, 0.2, 0.25, 0.3, 0.35, 0.4, 0.5, 0.6, 0.7, 0.8].
             (\<exists>l\<in>set (loanOptions b). minDownPayment l \<le> dp) \<and>
             price p * dp + price p * 0.03 \<le> calculateXiamenNetProceeds defaultXiamen \<and>
             (\<exists>k\<le>rooms p. combination option_3B2B borrower_gavin 0.4 3 850 =
                combination p b dp k 850)"
    by (rule bexI[of _ option_3B2B], rule bexI[of _ borrower_gavin], rule bexI[of _ "0.4"])
       (use q a k g in simp_all)
  then have "combination option_3B2B borrower_gavin 0.4 3 850 \<in> set (map scenario rs)"
    by (rule F[rule_format, THEN iffD2, OF disjI2])
  with A D show ?thesis by blast
qed

text \<open>
  Claim C4 as stated fails. With the default data, one property (3B2B) and one
  borrower, the stated enumeration holds the purchase at 50% down (a loan product
  qualifies): \<open>allResults\<close> leaves it out, its down payment and closing costs being above
  the net proceeds. The stated enumeration holds the purchase at 40% down as well:
  \<open>generateScenarios\<close>, whose grid is 20, 25, 30, 35, 50 percent, leaves it out.
\<close>

theorem generator_spec_counterexample:
  "combination option_3B2B borrower_gavin 0.5 0 850 \<in>
     set (generator_spec dpOptions [option_3B2B] [borrower_gavin] 850) \<and>
   (\<exists>rs. allResults defaultXiamen [option_3B2B] [borrower_gavin] 850 5 = Inr rs \<and>
      combination option_3B2B borrower_gavin 0.5 0 850 \<notin> set (map scenario rs)) \<and>
   combination option_3B2B borrower_gavin 0.4 0 850 \<in>
     set (generator_spec dpOptions [option_3B2B] [borrower_gavin] 850) \<and>
   (\<exists>scs. generateScenarios defaultXiamen [option_3B2B] [borrower_gavin] 850 = Inr scs \<and>
      combination option_3B2B borrower_gavin 0.4 0 850 \<notin> set scs)"
proof (intro conjI)
  have q5: "qualifies borrower_gavin 0.5" and q4: "qualifies borrower_gavin 0.4"
    by (simp_all add: qualifies_def borrower_gavin_def loan_conventional_def)
  have g5: "(0.5::real) \<in> set dpOptions" and g4: "(0.4::real) \<in> set dpOptions"
    by (simp_all add: dpOptions_def)
  have in_spec: "combination option_3B2B borrower_gavin dp 0 850 \<in>
     set (generator_spec dpOptions [option_3B2B] [borrower_gavin] 850)"
    if "dp \<in> set dpOptions" and "qualifies borrower_gavin dp" for dp
  proof -
    have k0: "\<exists>k\<le>rooms option_3B2B. combination option_3B2B borrower_gavin dp 0 850 =
           combination option_3B2B borrower_gavin dp k 850"
      by (rule exI[of _ 0]) simp
    have "\<exists>p\<in>set [option_3B2B]. \<exists>dp'\<in>set dpOptions. \<exists>b\<in>set [borrower_gavin].
        qualifies b dp' \<and>
        (\<exists>k\<le>rooms p. combination option_3B2B borrower_gavin dp 0 850 =
           combination p b dp' k 850)"
      by (rule bexI[of _ option_3B2B], rule bexI[of _ dp], rule bexI[of _ borrower_gavin])
         (use that k0 in simp_all)
    then show ?thesis unfolding set_generator_spec by (rule disjI2)
  qed
  from in_spec[OF g5 q5]
  show "combination option_3B2B borrower_gavin 0.5 0 850 \<in>
     set (generator_spec dpOptions [option_3B2B] [borrower_gavin] 850)" .
  from in_spec[OF g4 q4]
  show "combination option_3B2B borrower_gavin 0.4 0 850 \<in>
     set (generator_spec dpOptions [option_3B2B] [borrower_gavin] 850)" .
  let ?keep = "\<lambda>p b dp. qualifies b dp \<and>
     price p * dp + price p * 0.03 \<le> calculateXiamenNetProceeds defaultXiamen"
  have na: "\<not> price option_3B2B * 0.5 + price option_3B2B * 0.03
              \<le> calculateXiamenNetProceeds defaultXiamen"
    by (simp add: option_3B2B_def calculateXiamenNetProceeds_def defaultXiamen_def)
  have out1: "combination option_3B2B borrower_gavin 0.5 0 850 \<notin>
      set (enumerated dpOptions ?keep [option_3B2B] [borrower_gavin] 850)"
  proof
    assume "combination option_3B2B borrower_gavin 0.5 0 850 \<in>
      set (enumerated dpOptions ?keep [option_3B2B] [borrower_gavin] 850)"
    then obtain p b dp k where "?keep p b dp"
      and "combination option_3B2B borrower_gavin 0.5 0 850 = combination p b dp k 850"
      unfolding set_enumerated by blast
    then have "?keep option_3B2B borrower_gavin 0.5"
      unfolding combination_eq_iff by blast
    with na show False by blast
  qed
  show "\<exists>rs. allResults defaultXiamen [option_3B2B] [borrower_gavin] 850 5 = Inr rs \<and>
      combination option_3B2B borrower_gavin 0.5 0 850 \<notin> set (map scenario rs)"
    unfolding allResults_eq using out1 by (simp add: scenario_projr image_image)
  have out2: "combination option_3B2B borrower_gavin 0.4 0 850 \<notin>
      set (enumerated downPaymentOptions (\<lambda>p b dp. qualifies b dp)
             [option_3B2B] [borrower_gavin] 850)"
  proof
    assume "combination option_3B2B borrower_gavin 0.4 0 850 \<in>
      set (enumerated downPaymentOptions (\<lambda>p b dp. qualifies b dp)
             [option_3B2B] [borrower_gavin] 850)"
    then obtain p b dp k where "dp \<in> set downPaymentOptions"
      and "combination option_3B2B borrower_gavin 0.4 0 850 = combination p b dp k 850"
      unfolding set_enumerated by blast
    then have "(0.4::real) \<in> set downPaymentOptions"
      unfolding combination_eq_iff by blast
    then show False by (simp add: downPaymentOptions_def)
  qed
  then show "\<exists>scs. generateScenarios defaultXiamen [option_3B2B] [borrower_gavin] 850 = Inr scs \<and>
      combination option_3B2B borrower_gavin 0.4 0 850 \<notin> set scs"
    unfolding generateScenarios_eq by simp
qed

section \<open>Properties of the monthly cashflows in double arithmetic\<close>

text \<open>The exponent that \<open>ilog2\<close> computes is the binary exponent of its argument.\<close>

lemma ilog2_bounds:
  assumes "0 < x"
  shows "2 powi ilog2 x \<le> x \<and> x < 2 powi (ilog2 x + 1)"
proof (cases "1 \<le> x")
  case True
  define n where "n = \<lfloor>x\<rfloor>"
  from True have n: "0 < n" unfolding n_def by linarith
  from bitlen_bounds[OF n] have lo: "2 ^ nat (bitlen n - 1) \<le> n" and hi: "n < 2 ^ nat (bitlen n)"
    by simp_all
  have b1: "1 \<le> bitlen n" using n by (auto simp: bitlen_alt_def)
  have k: "ilog2 x = bitlen n - 1" using True by (simp add: ilog2_def n_def)
  have p1: "(2::real) powi (bitlen n - 1) = 2 ^ nat (bitlen n - 1)"
    using b1 by (simp add: power_int_def)
  have p2: "(2::real) powi (bitlen n) = 2 ^ nat (bitlen n)"
    using b1 by (simp add: power_int_def)
  have "(2::real) ^ nat (bitlen n - 1) \<le> real_of_int n"
    using lo by (metis of_int_le_iff of_int_numeral of_int_power)
  moreover have "real_of_int n \<le> x" unfolding n_def by simp
  ultimately have l: "2 powi ilog2 x \<le> x" unfolding k p1 by linarith
  have "n + 1 \<le> 2 ^ nat (bitlen n)" using hi by simp
  then have "real_of_int (n + 1) \<le> (2::real) ^ nat (bitlen n)"
    by (metis of_int_le_iff of_int_numeral of_int_power)
  moreover have "x < real_of_int (n + 1)" unfolding n_def by linarith
  ultimately have "x < 2 powi (ilog2 x + 1)" unfolding k using p2 by simp
  with l show ?thesis ..
next
  case False
  define y where "y = 1 / x"
  define m where "m = \<lceil>y\<rceil>"
  from False assms have y1: "1 < y" unfolding y_def by simp
  then have m2: "0 < m - 1" unfolding m_def by linarith
  define j where "j = bitlen (m - 1)"
  from bitlen_bounds[OF m2] have lo: "2 ^ nat (j - 1) \<le> m - 1" and hi: "m - 1 < 2 ^ nat j"
    unfolding j_def by simp_all
  have j1: "1 \<le> j" using m2 by (auto simp: bitlen_alt_def j_def)
  have k: "ilog2 x = - j" using False by (simp add: ilog2_def j_def m_def y_def)
  have p1: "(2::real) powi (- j) = 1 / 2 ^ nat j"
    using j1 by (simp add: power_int_def field_simps)
  have p2: "(2::real) powi (- j + 1) = 1 / 2 ^ nat (j - 1)"
    using j1 by (auto simp add: power_int_def field_simps nat_diff_distrib)
  have "m \<le> 2 ^ nat j" using hi by simp
  then have "real_of_int m \<le> (2::real) ^ nat j"
    by (metis of_int_le_iff of_int_numeral of_int_power)
  moreover have "y \<le> real_of_int m" unfolding m_def by simp
  ultimately have "y \<le> 2 ^ nat j" by linarith
  then have l: "2 powi ilog2 x \<le> x"
    unfolding k p1 y_def using assms by (simp add: field_simps)
  have "(2::real) ^ nat (j - 1) \<le> real_of_int (m - 1)"
    using lo by (metis of_int_le_iff of_int_numeral of_int_power)
  moreover have "real_of_int (m - 1) < y" unfolding m_def by linarith
  ultimately have "2 ^ nat (j - 1) < y" by linarith
  then have "x < 2 powi (ilog2 x + 1)"
    unfolding k p2 y_def using assms by (simp add: field_simps)
  with l show ?thesis ..
qed

lemma roundEven_error: "\<bar>real_of_int (roundEven y) - y\<bar> \<le> 1 / 2"
  unfolding roundEven_def Let_def by (auto simp: abs_le_iff)

text \<open>One rounding changes a number by at most the fraction \<open>2 ^ - 53\<close> of it.\<close>

lemma fl_error: "\<bar>fl x - x\<bar> \<le> 2 powi (- 53) * \<bar>x\<bar>"
proof (cases "x = 0")
  case True
  then show ?thesis by (simp add: fl_def)
next
  case False
  define e where "e = ilog2 \<bar>x\<bar> - 52"
  define y where "y = x / 2 powi e"
  have x: "x = y * 2 powi e" unfolding y_def by simp
  have f: "fl x = of_int (roundEven y) * 2 powi e"
    using False by (simp add: fl_def Let_def e_def y_def)
  have "\<bar>fl x - x\<bar> = \<bar>of_int (roundEven y) - y\<bar> * 2 powi e"
    unfolding f by (subst x) (simp add: abs_mult left_diff_distrib[symmetric] del: of_int_diff)
  also have "\<dots> \<le> 1 / 2 * 2 powi e"
    using roundEven_error[of y] by (intro mult_right_mono) simp_all
  also have "\<dots> = 2 powi (- 53) * 2 powi (e + 52)"
    by (simp add: power_int_add power_int_minus field_simps)
  also have "\<dots> \<le> 2 powi (- 53) * \<bar>x\<bar>"
  proof -
    from False have "0 < \<bar>x\<bar>" by simp
    from ilog2_bounds[OF this] have "2 powi (e + 52) \<le> \<bar>x\<bar>" by (simp add: e_def)
    then show ?thesis by (intro mult_left_mono) simp_all
  qed
  finally show ?thesis .
qed

text \<open>
  Claim C6, as the code has it. In the buy branch the effective cashflow is computed as
  \<open>(rental income + imputed rent) - payment\<close> and the actual cashflow as
  \<open>rental income - payment\<close>, the imputed rent being the fallback rent of the scenario.
  In exact arithmetic their difference is the imputed rent. In the double arithmetic
  of the code, whatever the platform's \<open>Math.pow\<close>, the difference is the imputed rent
  up to the roundings of the sum and of the two subtractions: it is off by at most
  \<open>2 ^ - 53\<close> times the sum of the magnitudes of these three exact results.
\<close>

theorem effective_cashflow_up_to_rounding:
  assumes "sellXiamen s" and "sdProperty s = Some p"
  shows
  "(\<exists>r. calculateScenario s x y = Inr r \<and>
      monthlyEffectiveCashflow r - monthlyCashflow r = monthlyImputedRent r \<and>
      monthlyImputedRent r = sdRentIfNotBuying s) \<and>
   (\<exists>c. monthlyCashflows_double mathPow s p = Inr c \<and>
      dbl_monthlyImputedRent c = sdRentIfNotBuying s \<and>
      dbl_monthlyTotalIncome c = dadd (dbl_monthlyRentalIncome c) (dbl_monthlyImputedRent c) \<and>
      dbl_monthlyCashflow c = dsub (dbl_monthlyRentalIncome c) (dbl_totalMonthlyPayment c) \<and>
      dbl_monthlyEffectiveCashflow c =
        dsub (dbl_monthlyTotalIncome c) (dbl_totalMonthlyPayment c) \<and>
      \<bar>dbl_monthlyEffectiveCashflow c - dbl_monthlyCashflow c - dbl_monthlyImputedRent c\<bar> \<le>
        2 powi (- 53) *
          (\<bar>dbl_monthlyRentalIncome c + dbl_monthlyImputedRent c\<bar> +
           \<bar>dbl_monthlyRentalIncome c - dbl_totalMonthlyPayment c\<bar> +
           \<bar>dbl_monthlyTotalIncome c - dbl_totalMonthlyPayment c\<bar>))"
proof (rule conjI)
  from assms have "sdProperty s \<noteq> None" by simp
  from effective_cashflow_minus_cashflow[OF assms(1) this, of x y]
  show "\<exists>r. calculateScenario s x y = Inr r \<and>
      monthlyEffectiveCashflow r - monthlyCashflow r = monthlyImputedRent r \<and>
      monthlyImputedRent r = sdRentIfNotBuying s" .
next
  obtain rate prem where lt: "loanTerms s (downPaymentPercent s) = Inr (rate, prem)"
    using loanTerms_total by blast
  define R where "R = dmul (monthlyRent_sd p) (real (roomsToRent s))"
  define I where "I = sdRentIfNotBuying s"
  define P where "P = dadd (dadd (calculateMonthlyMortgage_double mathPow
      (dsub (price p) (dmul (price p) (downPaymentPercent s))) (fl rate) 30) (hoaAndTax p)) (fl prem)"
  define c where "c = \<lparr> dbl_monthlyRentalIncome = R, dbl_monthlyImputedRent = I,
      dbl_monthlyTotalIncome = dadd R I, dbl_totalMonthlyPayment = P,
      dbl_monthlyCashflow = dsub R P, dbl_monthlyEffectiveCashflow = dsub (dadd R I) P \<rparr>"
  have c: "monthlyCashflows_double mathPow s p = Inr c"
    by (simp add: monthlyCashflows_double_def lt Let_def c_def R_def I_def P_def)
  let ?u = "(2::real) powi (- 53)"
  have e1: "\<bar>fl (R + I) - (R + I)\<bar> \<le> ?u * \<bar>R + I\<bar>"
    and e2: "\<bar>fl (R - P) - (R - P)\<bar> \<le> ?u * \<bar>R - P\<bar>"
    and e3: "\<bar>fl (fl (R + I) - P) - (fl (R + I) - P)\<bar> \<le> ?u * \<bar>fl (R + I) - P\<bar>"
    by (rule fl_error)+
  have "\<bar>fl (fl (R + I) - P) - fl (R - P) - I\<bar> \<le>
      \<bar>fl (R + I) - (R + I)\<bar> + \<bar>fl (R - P) - (R - P)\<bar> +
      \<bar>fl (fl (R + I) - P) - (fl (R + I) - P)\<bar>"
    by linarith
  also have "\<dots> \<le> ?u * \<bar>R + I\<bar> + ?u * \<bar>R - P\<bar> + ?u * \<bar>fl (R + I) - P\<bar>"
    using e1 e2 e3 by linarith
  finally have b: "\<bar>dsub (dadd R I) P - dsub R P - I\<bar> \<le>
      ?u * (\<bar>R + I\<bar> + \<bar>R - P\<bar> + \<bar>dadd R I - P\<bar>)"
    by (simp add: dadd_def dsub_def algebra_simps)
  show "\<exists>c. monthlyCashflows_double mathPow s p = Inr c \<and>
      dbl_monthlyImputedRent c = sdRentIfNotBuying s \<and>
      dbl_monthlyTotalIncome c = dadd (dbl_monthlyRentalIncome c) (dbl_monthlyImputedRent c) \<and>
      dbl_monthlyCashflow c = dsub (dbl_monthlyRentalIncome c) (dbl_totalMonthlyPayment c) \<and>
      dbl_monthlyEffectiveCashflow c =
        dsub (dbl_monthlyTotalIncome c) (dbl_totalMonthlyPayment c) \<and>
      \<bar>dbl_monthlyEffectiveCashflow c - dbl_monthlyCashflow c - dbl_monthlyImputedRent c\<bar> \<le>
        2 powi (- 53) *
          (\<bar>dbl_monthlyRentalIncome c + dbl_monthlyImputedRent c\<bar> +
           \<bar>dbl_monthlyRentalIncome c - dbl_totalMonthlyPayment c\<bar> +
           \<bar>dbl_monthlyTotalIncome c - dbl_totalMonthlyPayment c\<bar>)"
    by (rule exI[of _ c]) (use c b in \<open>simp add: c_def I_def\<close>)
qed

text \<open>
  The purchase of the 2B2B property with the interest-free loan and the fallback rent
  849.99.
\<close>

theorem effective_cashflow_up_to_rounding_witness:
  "sellXiamen (interestFreeScenario 849.99) \<and>
   sdProperty (interestFreeScenario 849.99) = Some option_2B2B \<and>
   (\<exists>c. monthlyCashflows_double roundedPow (interestFreeScenario 849.99) option_2B2B = Inr c \<and>
      dbl_monthlyImputedRent c = fl 849.99 \<and>
      \<bar>dbl_monthlyEffectiveCashflow c - dbl_monthlyCashflow c - dbl_monthlyImputedRent c\<bar> \<le>
        2 powi (- 53) *
          (\<bar>dbl_monthlyRentalIncome c + dbl_monthlyImputedRent c\<bar> +
           \<bar>dbl_monthlyRentalIncome c - dbl_totalMonthlyPayment c\<bar> +
           \<bar>dbl_monthlyTotalIncome c - dbl_totalMonthlyPayment c\<bar>))"
proof -
  let ?s = "interestFreeScenario 849.99"
  have h: "sellXiamen ?s" "sdProperty ?s = Some option_2B2B"
    and rent: "sdRentIfNotBuying ?s = fl 849.99"
    by (simp_all add: interestFreeScenario_def)
  from effective_cashflow_up_to_rounding[OF h, of defaultXiamen 5 roundedPow]
  have "\<exists>c. monthlyCashflows_double roundedPow ?s option_2B2B = Inr c \<and>
      dbl_monthlyImputedRent c = fl 849.99 \<and>
      \<bar>dbl_monthlyEffectiveCashflow c - dbl_monthlyCashflow c - dbl_monthlyImputedRent c\<bar> \<le>
        2 powi (- 53) *
          (\<bar>dbl_monthlyRentalIncome c + dbl_monthlyImputedRent c\<bar> +
           \<bar>dbl_monthlyRentalIncome c - dbl_totalMonthlyPayment c\<bar> +
           \<bar>dbl_monthlyTotalIncome c - dbl_totalMonthlyPayment c\<bar>)"
    unfolding rent by auto
  with h show ?thesis by simp
qed

text \<open>
  Claim C6 as stated fails. For the purchase of the 2B2B property (price 550,000, 20%
  down, two rooms let at 1,200, carrying cost 850) with the interest-free loan, the
  payment is 440,000 / 360 + 850. With the fallback rent 849.99 the code computes the
  effective cashflow 1177.7677777777776 and the actual cashflow 327.7777777777778;
  their difference, also as a double, is 849.9899999999998 and not the imputed rent
  849.99. With the fallback rent 0.1 the effective cashflow is 327.87777777777774 and
  the difference 0.09999999999990905, not 0.1.
\<close>

theorem effective_cashflow_not_exact_counterexample:
  "monthlyCashflows_double roundedPow (interestFreeScenario 849.99) option_2B2B =
     Inr \<lparr> dbl_monthlyRentalIncome = 2400,
           dbl_monthlyImputedRent = 3738295553973289 / 2 ^ 42,
           dbl_monthlyTotalIncome = 1786700897577861 / 2 ^ 39,
           dbl_totalMonthlyPayment = 4556864857338311 / 2 ^ 41,
           dbl_monthlyCashflow = 720790955986489 / 2 ^ 41,
           dbl_monthlyEffectiveCashflow = 2589938732973133 / 2 ^ 41 \<rparr> \<and>
   dsub (2589938732973133 / 2 ^ 41) (720790955986489 / 2 ^ 41) = 467286944246661 / 2 ^ 39 \<and>
   (467286944246661 / 2 ^ 39 :: real) \<noteq> 3738295553973289 / 2 ^ 42 \<and>
   monthlyCashflows_double roundedPow (interestFreeScenario 0.1) option_2B2B =
     Inr \<lparr> dbl_monthlyRentalIncome = 2400,
           dbl_monthlyImputedRent = 3602879701896397 / 2 ^ 55,
           dbl_monthlyTotalIncome = 5277875715650355 / 2 ^ 41,
           dbl_totalMonthlyPayment = 4556864857338311 / 2 ^ 41,
           dbl_monthlyCashflow = 720790955986489 / 2 ^ 41,
           dbl_monthlyEffectiveCashflow = 180252714578011 / 2 ^ 39 \<rparr> \<and>
   dsub (180252714578011 / 2 ^ 39) (720790955986489 / 2 ^ 41) = 219902325555 / 2 ^ 41 \<and>
   (219902325555 / 2 ^ 41 :: real) \<noteq> 3602879701896397 / 2 ^ 55"
proof (intro conjI)
  show "monthlyCashflows_double roundedPow (interestFreeScenario 849.99) option_2B2B =
     Inr \<lparr> dbl_monthlyRentalIncome = 2400,
           dbl_monthlyImputedRent = 3738295553973289 / 2 ^ 42,
           dbl_monthlyTotalIncome = 1786700897577861 / 2 ^ 39,
           dbl_totalMonthlyPayment = 4556864857338311 / 2 ^ 41,
           dbl_monthlyCashflow = 720790955986489 / 2 ^ 41,
           dbl_monthlyEffectiveCashflow = 2589938732973133 / 2 ^ 41 \<rparr>"
    by code_simp
  show "dsub (2589938732973133 / 2 ^ 41) (720790955986489 / 2 ^ 41) = 467286944246661 / 2 ^ 39"
    by code_simp
  show "(467286944246661 / 2 ^ 39 :: real) \<noteq> 3738295553973289 / 2 ^ 42"
    by simp
  show "monthlyCashflows_double roundedPow (interestFreeScenario 0.1) option_2B2B =
     Inr \<lparr> dbl_monthlyRentalIncome = 2400,
           dbl_monthlyImputedRent = 3602879701896397 / 2 ^ 55,
           dbl_monthlyTotalIncome = 5277875715650355 / 2 ^ 41,
           dbl_totalMonthlyPayment = 4556864857338311 / 2 ^ 41,
           dbl_monthlyCashflow = 720790955986489 / 2 ^ 41,
           dbl_monthlyEffectiveCashflow = 180252714578011 / 2 ^ 39 \<rparr>"
    by code_simp
  show "dsub (180252714578011 / 2 ^ 39) (720790955986489 / 2 ^ 41) = 219902325555 / 2 ^ 41"
    by code_simp
  show "(219902325555 / 2 ^ 41 :: real) \<noteq> 3602879701896397 / 2 ^ 55"
    by simp
qed

end
